theory Spec2Isabelle
  imports Main
begin

unbundle bit_operations_syntax

section \<open>The strongswan service plugin\<close>

text \<open>
  A shallow embedding of \<^verbatim>\<open>cc_service_strongswan.py\<close>: the class \<^verbatim>\<open>StrongSwan\<close> with its
  methods \<^verbatim>\<open>prepare\<close>, \<^verbatim>\<open>configure\<close> and \<^verbatim>\<open>init_pki_external\<close>.  The plugin
  computes with \<^verbatim>\<open>netaddr\<close> networks and hands its packet filter rules to the helpers
  \<^verbatim>\<open>iptables_add\<close>, \<^verbatim>\<open>ip6tables_add\<close>, \<^verbatim>\<open>iptables_run\<close> and \<^verbatim>\<open>ip6tables_run\<close>.
  Exceptions are values of type \<open>error\<close>; a method that can raise returns \<open>error + 'a\<close>.
\<close>

datatype error = AddrFormatError | IndexError | StopIteration | RuntimeError

subsection \<open>The part of netaddr that the plugin uses\<close>

text \<open>
  An \<^verbatim>\<open>IPNetwork\<close> object holds the address family (\<^verbatim>\<open>_module.version\<close>, 4 or 6), the
  address as an integer (\<^verbatim>\<open>_value\<close>, kept as given: host bits are not cleared) and the
  prefix length (\<^verbatim>\<open>_prefixlen\<close>).  An \<^verbatim>\<open>IPAddress\<close> is built from a value and a version.
  The definitions below follow netaddr 0.7, the release line that offers \<^verbatim>\<open>is_private\<close>
  and \<^verbatim>\<open>is_unicast\<close> on networks.
\<close>

record ipnetwork =
  ip_version :: nat
  ip_value :: int
  prefixlen :: nat

datatype ipaddress = IPAddress int nat

definition width :: "nat \<Rightarrow> nat" where
  "width v = (if v = 4 then 32 else 128)"

definition max_int :: "nat \<Rightarrow> int" where
  "max_int v = 2 ^ width v - 1"

text \<open>What the constructor of \<^verbatim>\<open>IPNetwork\<close> guarantees of every object it returns.\<close>

definition ipnetwork_ok :: "ipnetwork \<Rightarrow> bool" where
  "ipnetwork_ok n =
     ((ip_version n = 4 \<or> ip_version n = 6) \<and>
      0 \<le> ip_value n \<and> ip_value n \<le> max_int (ip_version n) \<and>
      prefixlen n \<le> width (ip_version n))"

text \<open>\<^verbatim>\<open>(1 << (width - prefixlen)) - 1\<close>\<close>

definition hostmask_int :: "ipnetwork \<Rightarrow> int" where
  "hostmask_int n = push_bit (width (ip_version n) - prefixlen n) 1 - 1"

text \<open>\<^verbatim>\<open>first\<close>, \<^verbatim>\<open>last\<close> and \<^verbatim>\<open>size\<close> of a network.\<close>

definition first :: "ipnetwork \<Rightarrow> int" where
  "first n = ip_value n AND (max_int (ip_version n) XOR hostmask_int n)"

definition last_ip :: "ipnetwork \<Rightarrow> int" where
  "last_ip n = ip_value n OR hostmask_int n"

definition size_ip :: "ipnetwork \<Rightarrow> int" where
  "size_ip n = last_ip n - first n + 1"

text \<open>
  \<^verbatim>\<open>net[index]\<close> with an integer index: negative indices count from the last address, an
  index outside the network raises \<^verbatim>\<open>IndexError\<close>.
\<close>

definition getitem :: "ipnetwork \<Rightarrow> int \<Rightarrow> error + ipaddress" where
  "getitem n index =
     (if - size_ip n \<le> index \<and> index < 0 then Inr (IPAddress (last_ip n + index + 1) (ip_version n))
      else if 0 \<le> index \<and> index \<le> size_ip n - 1 then Inr (IPAddress (first n + index) (ip_version n))
      else Inl IndexError)"

text \<open>
  \<^verbatim>\<open>next(net.subnet(p))\<close>: the generator yields nothing when \<open>p\<close> is shorter than the
  prefix of \<open>net\<close>, so \<^verbatim>\<open>next\<close> raises \<^verbatim>\<open>StopIteration\<close>; otherwise its first item is
  \<^verbatim>\<open>IPNetwork('%s/%d' % (int_to_str(net.first), p), version)\<close>, which is rejected with
  \<^verbatim>\<open>AddrFormatError\<close> when \<open>p\<close> exceeds the width of the family.
\<close>

definition subnet_first :: "ipnetwork \<Rightarrow> nat \<Rightarrow> error + ipnetwork" where
  "subnet_first n p =
     (if p < prefixlen n then Inl StopIteration
      else if width (ip_version n) < p then Inl AddrFormatError
      else Inr \<lparr>ip_version = ip_version n, ip_value = first n, prefixlen = p\<rparr>)"

text \<open>
  \<^verbatim>\<open>other in self\<close> for two networks (\<^verbatim>\<open>IPNetwork.__contains__\<close>): equal families, equal
  network bits under the prefix of \<open>self\<close>, and \<open>other\<close> at least as long a prefix.
\<close>

definition contains :: "ipnetwork \<Rightarrow> ipnetwork \<Rightarrow> bool" where
  "contains self other =
     (if ip_version self = ip_version other then
        (let shiftwidth = width (ip_version self) - prefixlen self;
             self_net = drop_bit shiftwidth (ip_value self);
             other_net = drop_bit shiftwidth (ip_value other)
         in self_net = other_net \<and> prefixlen self \<le> prefixlen other)
      else False)"

text \<open>
  \<^verbatim>\<open>other in IPRange(start, end)\<close> for a network \<open>other\<close> (\<^verbatim>\<open>IPRange.__contains__\<close>),
  the range given by its family and its two bounds: the start of \<open>other\<close> must not lie
  below the start of the range, and the start of the network after \<open>other\<close> must lie
  below its end.
\<close>

definition range_contains :: "nat \<Rightarrow> int \<Rightarrow> int \<Rightarrow> ipnetwork \<Rightarrow> bool" where
  "range_contains v range_start range_end other =
     (if v = ip_version other then
        (let shiftwidth = width (ip_version other) - prefixlen other;
             other_start = push_bit shiftwidth (drop_bit shiftwidth (ip_value other));
             other_next_start = other_start + push_bit shiftwidth 1
         in range_start \<le> other_start \<and> other_next_start < range_end)
      else False)"

text \<open>Dotted-quad and colon-hexadecimal notation, to write the constants as netaddr does.\<close>

definition ipv4 :: "int \<Rightarrow> int \<Rightarrow> int \<Rightarrow> int \<Rightarrow> int" where
  "ipv4 a b c d = ((a * 256 + b) * 256 + c) * 256 + d"

definition ipv6 :: "int list \<Rightarrow> int" where
  "ipv6 groups = foldl (\<lambda>acc g. acc * 65536 + g) 0 groups"

definition IPNetwork4 :: "int \<Rightarrow> nat \<Rightarrow> ipnetwork" where
  "IPNetwork4 a p = \<lparr>ip_version = 4, ip_value = a, prefixlen = p\<rparr>"

definition IPNetwork6 :: "int \<Rightarrow> nat \<Rightarrow> ipnetwork" where
  "IPNetwork6 a p = \<lparr>ip_version = 6, ip_value = a, prefixlen = p\<rparr>"

text \<open>The address ranges of \<^verbatim>\<open>netaddr.ip\<close> behind the classification methods.\<close>

definition IPV4_PRIVATE :: "ipnetwork list" where
  "IPV4_PRIVATE =
     [IPNetwork4 (ipv4 10 0 0 0) 8,
      IPNetwork4 (ipv4 100 64 0 0) 10,
      IPNetwork4 (ipv4 172 16 0 0) 12,
      IPNetwork4 (ipv4 192 0 0 0) 24,
      IPNetwork4 (ipv4 192 168 0 0) 16,
      IPNetwork4 (ipv4 198 18 0 0) 15]"

definition IPV4_LINK_LOCAL :: ipnetwork where
  "IPV4_LINK_LOCAL = IPNetwork4 (ipv4 169 254 0 0) 16"

definition IPV4_MULTICAST :: ipnetwork where
  "IPV4_MULTICAST = IPNetwork4 (ipv4 224 0 0 0) 4"

definition IPV6_PRIVATE :: "ipnetwork list" where
  "IPV6_PRIVATE =
     [IPNetwork6 (ipv6 [0xfc00, 0, 0, 0, 0, 0, 0, 0]) 7,
      IPNetwork6 (ipv6 [0xfec0, 0, 0, 0, 0, 0, 0, 0]) 10]"

definition IPV6_LINK_LOCAL :: ipnetwork where
  "IPV6_LINK_LOCAL = IPNetwork6 (ipv6 [0xfe80, 0, 0, 0, 0, 0, 0, 0]) 10"

definition IPV6_MULTICAST :: ipnetwork where
  "IPV6_MULTICAST = IPNetwork6 (ipv6 [0xff00, 0, 0, 0, 0, 0, 0, 0]) 8"

definition is_multicast :: "ipnetwork \<Rightarrow> bool" where
  "is_multicast n =
     (if ip_version n = 4 then contains IPV4_MULTICAST n
      else if ip_version n = 6 then contains IPV6_MULTICAST n
      else False)"

definition is_unicast :: "ipnetwork \<Rightarrow> bool" where
  "is_unicast n = (\<not> is_multicast n)"

definition is_link_local :: "ipnetwork \<Rightarrow> bool" where
  "is_link_local n =
     (if ip_version n = 4 then contains IPV4_LINK_LOCAL n
      else if ip_version n = 6 then contains IPV6_LINK_LOCAL n
      else False)"

text \<open>
  \<^verbatim>\<open>is_private\<close> walks the private ranges of the family (for IPv4 the list ends with the
  range 239.0.0.0 to 239.255.255.255) and then asks \<^verbatim>\<open>is_link_local\<close>.
\<close>

definition is_private :: "ipnetwork \<Rightarrow> bool" where
  "is_private n =
     (if ip_version n = 4 \<and>
         (list_ex (\<lambda>cidr. contains cidr n) IPV4_PRIVATE \<or>
          range_contains 4 (ipv4 239 0 0 0) (ipv4 239 255 255 255) n) then True
      else if ip_version n = 6 \<and> list_ex (\<lambda>cidr. contains cidr n) IPV6_PRIVATE then True
      else if is_link_local n then True
      else False)"

subsection \<open>The service object\<close>

text \<open>
  \<^verbatim>\<open>prepare\<close> reads its settings through \<^verbatim>\<open>get_env_setting_bool\<close> and
  \<^verbatim>\<open>get_env_setting_string\<close> and parses the two subnets with \<^verbatim>\<open>IPNetwork\<close>.  The
  record \<open>settings\<close> holds what these calls return, one field per environment variable;
  a subnet is \<open>None\<close> when \<^verbatim>\<open>IPNetwork\<close> rejects the text with \<^verbatim>\<open>AddrFormatError\<close>.
\<close>

record settings =
  ALLOW_INTERCLIENT_COMMUNICATION :: bool
  CLIENT_SUBNET_IPV4 :: "ipnetwork option"
  CLIENT_SUBNET_IPV6 :: "ipnetwork option"
  USE_INTERNAL_PKI :: bool
  PROTECT_CLIENTS_FROM_INTERNET :: bool

text \<open>The attributes that \<^verbatim>\<open>prepare\<close> stores in \<^verbatim>\<open>self\<close> and \<^verbatim>\<open>configure\<close> reads.\<close>

record service =
  allow_interclient_communication :: bool
  client_subnet_ipv4 :: ipnetwork
  client_subnet_ipv6 :: ipnetwork
  client_subnet_ipv6_is_gua :: bool
  client_subnet_ipv6_is_site_local :: bool
  use_internal_pki :: bool
  protect_clients_from_internet :: bool

text \<open>
  \<^verbatim>\<open>prepare\<close>, lines 86--148: the settings are read in this order, the first failure
  ends the method.  The IPv6 subnet is classified by the \<^verbatim>\<open>if\<close>/\<^verbatim>\<open>elif\<close>/\<^verbatim>\<open>else\<close> of
  lines 112--121.  The DNS servers and the host names of the VPN server (lines 123--142)
  do not reach the packet filter rules and are left out, as are the look-up of the host
  names and the loading of the kernel module at the end of the method.
\<close>

definition prepare :: "settings \<Rightarrow> error + service" where
  "prepare env =
     (case CLIENT_SUBNET_IPV4 env of
        None \<Rightarrow> Inl AddrFormatError
      | Some subnet_ipv4 \<Rightarrow>
          (case CLIENT_SUBNET_IPV6 env of
             None \<Rightarrow> Inl AddrFormatError
           | Some subnet_ipv6 \<Rightarrow>
               (if is_unicast subnet_ipv6 \<and> \<not> is_private subnet_ipv6 then
                  Inr \<lparr>allow_interclient_communication = ALLOW_INTERCLIENT_COMMUNICATION env,
                       client_subnet_ipv4 = subnet_ipv4,
                       client_subnet_ipv6 = subnet_ipv6,
                       client_subnet_ipv6_is_gua = True,
                       client_subnet_ipv6_is_site_local = False,
                       use_internal_pki = USE_INTERNAL_PKI env,
                       protect_clients_from_internet = PROTECT_CLIENTS_FROM_INTERNET env\<rparr>
                else if is_private subnet_ipv6 then
                  Inr \<lparr>allow_interclient_communication = ALLOW_INTERCLIENT_COMMUNICATION env,
                       client_subnet_ipv4 = subnet_ipv4,
                       client_subnet_ipv6 = subnet_ipv6,
                       client_subnet_ipv6_is_gua = False,
                       client_subnet_ipv6_is_site_local = True,
                       use_internal_pki = USE_INTERNAL_PKI env,
                       protect_clients_from_internet = PROTECT_CLIENTS_FROM_INTERNET env\<rparr>
                else Inl RuntimeError)))"

subsection \<open>Addresses of the server and of the clients\<close>

text \<open>
  \<^verbatim>\<open>configure\<close>, lines 186--198.  The addresses are taken from the IPv4 subnet as it
  is, and from the IPv6 subnet after it has been narrowed to its first /96 when it is
  wider than that.
\<close>

record addressing =
  own_ip_in_client_subnet_ipv4 :: ipaddress
  client_ip_range_start_ipv4 :: ipaddress
  client_ip_range_end_ipv4 :: ipaddress
  own_ip_in_client_subnet_ipv6 :: ipaddress
  client_ip_range_start_ipv6 :: ipaddress
  client_ip_range_end_ipv6 :: ipaddress

text \<open>Lines 186--188: own address, start and end of the client range, IPv4.\<close>

definition client_addresses_ipv4 :: "ipnetwork \<Rightarrow> error + ipaddress \<times> ipaddress \<times> ipaddress" where
  "client_addresses_ipv4 subnet =
     (case getitem subnet 1 of Inl e \<Rightarrow> Inl e | Inr own \<Rightarrow>
     (case getitem subnet 2 of Inl e \<Rightarrow> Inl e | Inr range_start \<Rightarrow>
     (case getitem subnet (- 1) of Inl e \<Rightarrow> Inl e | Inr range_end \<Rightarrow>
        Inr (own, range_start, range_end))))"

text \<open>Lines 191--194: strongswan handles subnets up to /96 only.\<close>

definition effective_client_subnet_ipv6 :: "ipnetwork \<Rightarrow> error + ipnetwork" where
  "effective_client_subnet_ipv6 subnet =
     (if prefixlen subnet < 96 then subnet_first subnet 96 else Inr subnet)"

text \<open>Lines 191--198: the same three addresses, taken from the effective IPv6 subnet.\<close>

definition client_addresses_ipv6 :: "ipnetwork \<Rightarrow> error + ipaddress \<times> ipaddress \<times> ipaddress" where
  "client_addresses_ipv6 subnet =
     (case effective_client_subnet_ipv6 subnet of Inl e \<Rightarrow> Inl e | Inr effective \<Rightarrow>
     (case getitem effective 1 of Inl e \<Rightarrow> Inl e | Inr own \<Rightarrow>
     (case getitem effective 2 of Inl e \<Rightarrow> Inl e | Inr range_start \<Rightarrow>
     (case getitem effective (- 1) of Inl e \<Rightarrow> Inl e | Inr range_end \<Rightarrow>
        Inr (own, range_start, range_end)))))"

definition client_addresses :: "service \<Rightarrow> error + addressing" where
  "client_addresses s =
     (case client_addresses_ipv4 (client_subnet_ipv4 s) of
        Inl e \<Rightarrow> Inl e
      | Inr (own4, start4, end4) \<Rightarrow>
          (case client_addresses_ipv6 (client_subnet_ipv6 s) of
             Inl e \<Rightarrow> Inl e
           | Inr (own6, start6, end6) \<Rightarrow>
               Inr \<lparr>own_ip_in_client_subnet_ipv4 = own4,
                    client_ip_range_start_ipv4 = start4,
                    client_ip_range_end_ipv4 = end4,
                    own_ip_in_client_subnet_ipv6 = own6,
                    client_ip_range_start_ipv6 = start6,
                    client_ip_range_end_ipv6 = end6\<rparr>))"

subsection \<open>The calls to the packet filter helpers\<close>

text \<open>
  A call \<^verbatim>\<open>iptables_add(chain, target, args, comment)\<close> (or \<^verbatim>\<open>ip6tables_add\<close>) is
  recorded as \<open>Add\<close> with its tool, chain, target, argument list and comment, an omitted
  argument list as \<open>[]\<close> and an omitted comment as \<open>None\<close>; a call
  \<^verbatim>\<open>iptables_run(args)\<close> as \<open>Run\<close>.  An argument is a string literal of the source or
  \<^verbatim>\<open>str(net)\<close> of a network object, kept as \<open>Str net\<close>.
\<close>

datatype tool = iptables | ip6tables

datatype arg = Lit string | Str ipnetwork

datatype fw_call =
    Add tool string string "arg list" "string option"
  | Run tool "arg list"

text \<open>Lines 302--304: filter all packets that have RH0 headers.\<close>

definition rh0_exploit_protection :: "fw_call list" where
  "rh0_exploit_protection =
     [Add ip6tables ''INPUT'' ''DROP'' [Lit ''-m'', Lit ''rt'', Lit ''--rt-type'', Lit ''0''] (Some ''RH0 Exploit Protection''),
      Add ip6tables ''FORWARD'' ''DROP'' [Lit ''-m'', Lit ''rt'', Lit ''--rt-type'', Lit ''0''] (Some ''RH0 Exploit Protection''),
      Add ip6tables ''OUTPUT'' ''DROP'' [Lit ''-m'', Lit ''rt'', Lit ''--rt-type'', Lit ''0''] (Some ''RH0 Exploit Protection'')]"

text \<open>Lines 310--319: protect against spoofing attacks.\<close>

definition anti_spoofing :: "service \<Rightarrow> fw_call list" where
  "anti_spoofing s =
     [Add iptables ''INPUT'' ''DROP'' [Lit ''!'', Lit ''-i'', Lit ''lo'', Lit ''-s'', Lit ''127.0.0.0/8''] (Some ''Anti-Spoofing''),
      Add iptables ''FORWARD'' ''DROP'' [Lit ''!'', Lit ''-i'', Lit ''lo'', Lit ''-s'', Lit ''127.0.0.0/8''] (Some ''Anti-Spoofing''),
      Add ip6tables ''INPUT'' ''DROP'' [Lit ''!'', Lit ''-i'', Lit ''lo'', Lit ''-s'', Lit ''::1/128''] (Some ''Anti-Spoofing''),
      Add ip6tables ''FORWARD'' ''DROP'' [Lit ''!'', Lit ''-i'', Lit ''lo'', Lit ''-s'', Lit ''::1/128''] (Some ''Anti-Spoofing''),
      Add iptables ''INPUT'' ''DROP'' [Lit ''-s'', Str (client_subnet_ipv4 s), Lit ''-m'', Lit ''policy'', Lit ''--dir'', Lit ''in'', Lit ''--pol'', Lit ''none''] (Some ''Anti-Spoofing''),
      Add iptables ''FORWARD'' ''DROP'' [Lit ''-s'', Str (client_subnet_ipv4 s), Lit ''-m'', Lit ''policy'', Lit ''--dir'', Lit ''in'', Lit ''--pol'', Lit ''none''] (Some ''Anti-Spoofing''),
      Add ip6tables ''INPUT'' ''DROP'' [Lit ''-s'', Str (client_subnet_ipv6 s), Lit ''-m'', Lit ''policy'', Lit ''--dir'', Lit ''in'', Lit ''--pol'', Lit ''none''] (Some ''Anti-Spoofing''),
      Add ip6tables ''FORWARD'' ''DROP'' [Lit ''-s'', Str (client_subnet_ipv6 s), Lit ''-m'', Lit ''policy'', Lit ''--dir'', Lit ''in'', Lit ''--pol'', Lit ''none''] (Some ''Anti-Spoofing'')]"

text \<open>Lines 323--324: allow localhost to access everything.\<close>

definition allow_localhost :: "fw_call list" where
  "allow_localhost =
     [Add iptables ''INPUT'' ''ACCEPT'' [Lit ''-i'', Lit ''lo''] None,
      Add ip6tables ''INPUT'' ''ACCEPT'' [Lit ''-i'', Lit ''lo''] None]"

text \<open>Lines 328--333: allow IPSec related traffic.\<close>

definition allow_ipsec :: "fw_call list" where
  "allow_ipsec =
     [Add iptables ''INPUT'' ''ACCEPT'' [Lit ''-p'', Lit ''udp'', Lit ''--dport'', Lit ''500''] None,
      Add iptables ''INPUT'' ''ACCEPT'' [Lit ''-p'', Lit ''udp'', Lit ''--dport'', Lit ''4500''] None,
      Add iptables ''INPUT'' ''ACCEPT'' [Lit ''-p'', Lit ''esp''] None,
      Add ip6tables ''INPUT'' ''ACCEPT'' [Lit ''-p'', Lit ''udp'', Lit ''--dport'', Lit ''500''] None,
      Add ip6tables ''INPUT'' ''ACCEPT'' [Lit ''-p'', Lit ''udp'', Lit ''--dport'', Lit ''4500''] None,
      Add ip6tables ''INPUT'' ''ACCEPT'' [Lit ''-p'', Lit ''esp''] None]"

text \<open>Lines 337--344: allow packets that belong to already existing connections.\<close>

definition existing_connections :: "fw_call list" where
  "existing_connections =
     [Add iptables ''INPUT'' ''DROP'' [Lit ''-m'', Lit ''conntrack'', Lit ''--ctstate'', Lit ''INVALID''] None,
      Add iptables ''INPUT'' ''ACCEPT'' [Lit ''-m'', Lit ''conntrack'', Lit ''--ctstate'', Lit ''ESTABLISHED,RELATED''] None,
      Add iptables ''FORWARD'' ''DROP'' [Lit ''-m'', Lit ''conntrack'', Lit ''--ctstate'', Lit ''INVALID''] None,
      Add iptables ''FORWARD'' ''ACCEPT'' [Lit ''-m'', Lit ''conntrack'', Lit ''--ctstate'', Lit ''ESTABLISHED,RELATED''] None,
      Add ip6tables ''INPUT'' ''DROP'' [Lit ''-m'', Lit ''conntrack'', Lit ''--ctstate'', Lit ''INVALID''] None,
      Add ip6tables ''INPUT'' ''ACCEPT'' [Lit ''-m'', Lit ''conntrack'', Lit ''--ctstate'', Lit ''ESTABLISHED,RELATED''] None,
      Add ip6tables ''FORWARD'' ''DROP'' [Lit ''-m'', Lit ''conntrack'', Lit ''--ctstate'', Lit ''INVALID''] None,
      Add ip6tables ''FORWARD'' ''ACCEPT'' [Lit ''-m'', Lit ''conntrack'', Lit ''--ctstate'', Lit ''ESTABLISHED,RELATED''] None]"

text \<open>Lines 348--351: allow VPN clients to access the DNS server.\<close>

definition allow_dns :: "service \<Rightarrow> fw_call list" where
  "allow_dns s =
     [Add iptables ''INPUT'' ''ACCEPT'' [Lit ''-p'', Lit ''udp'', Lit ''-s'', Str (client_subnet_ipv4 s), Lit ''--dport'', Lit ''53'', Lit ''-m'', Lit ''policy'', Lit ''--dir'', Lit ''in'', Lit ''--pol'', Lit ''ipsec''] None,
      Add iptables ''INPUT'' ''ACCEPT'' [Lit ''-p'', Lit ''tcp'', Lit ''-s'', Str (client_subnet_ipv4 s), Lit ''--dport'', Lit ''53'', Lit ''-m'', Lit ''policy'', Lit ''--dir'', Lit ''in'', Lit ''--pol'', Lit ''ipsec''] None,
      Add ip6tables ''INPUT'' ''ACCEPT'' [Lit ''-p'', Lit ''udp'', Lit ''-s'', Str (client_subnet_ipv6 s), Lit ''--dport'', Lit ''53'', Lit ''-m'', Lit ''policy'', Lit ''--dir'', Lit ''in'', Lit ''--pol'', Lit ''ipsec''] None,
      Add ip6tables ''INPUT'' ''ACCEPT'' [Lit ''-p'', Lit ''tcp'', Lit ''-s'', Str (client_subnet_ipv6 s), Lit ''--dport'', Lit ''53'', Lit ''-m'', Lit ''policy'', Lit ''--dir'', Lit ''in'', Lit ''--pol'', Lit ''ipsec''] None]"

text \<open>Lines 355--357: block packets between VPN clients (if requested).\<close>

definition block_interclient :: "service \<Rightarrow> fw_call list" where
  "block_interclient s =
     (if \<not> allow_interclient_communication s then
      [Add iptables ''FORWARD'' ''DROP'' [Lit ''-s'', Str (client_subnet_ipv4 s), Lit ''-d'', Str (client_subnet_ipv4 s)] None,
       Add ip6tables ''FORWARD'' ''DROP'' [Lit ''-s'', Str (client_subnet_ipv6 s), Lit ''-d'', Str (client_subnet_ipv6 s)] None]
     else [])"

text \<open>Lines 372--390: allow ICMP packets (IPv4).\<close>

definition allow_icmp :: "fw_call list" where
  "allow_icmp =
     [Run iptables [Lit ''-N'', Lit ''AllowICMP_I''],
      Add iptables ''AllowICMP_I'' ''ACCEPT'' [Lit ''-p'', Lit ''icmp'', Lit ''--icmp-type'', Lit ''0''] None,
      Add iptables ''AllowICMP_I'' ''ACCEPT'' [Lit ''-p'', Lit ''icmp'', Lit ''--icmp-type'', Lit ''3''] None,
      Add iptables ''AllowICMP_I'' ''ACCEPT'' [Lit ''-p'', Lit ''icmp'', Lit ''--icmp-type'', Lit ''8'', Lit ''-m'', Lit ''limit'', Lit ''--limit'', Lit ''5/sec'', Lit ''--limit-burst'', Lit ''20''] None,
      Add iptables ''AllowICMP_I'' ''ACCEPT'' [Lit ''-p'', Lit ''icmp'', Lit ''--icmp-type'', Lit ''11''] None,
      Add iptables ''AllowICMP_I'' ''ACCEPT'' [Lit ''-p'', Lit ''icmp'', Lit ''--icmp-type'', Lit ''12''] None,
      Add iptables ''AllowICMP_I'' ''ACCEPT'' [Lit ''-p'', Lit ''icmp'', Lit ''--icmp-type'', Lit ''30''] None,
      Add iptables ''AllowICMP_I'' ''DROP'' [] None,
      Add iptables ''INPUT'' ''AllowICMP_I'' [Lit ''-p'', Lit ''icmp''] None,
      Run iptables [Lit ''-N'', Lit ''AllowICMP_F''],
      Add iptables ''AllowICMP_F'' ''ACCEPT'' [Lit ''-p'', Lit ''icmp'', Lit ''--icmp-type'', Lit ''0''] None,
      Add iptables ''AllowICMP_F'' ''ACCEPT'' [Lit ''-p'', Lit ''icmp'', Lit ''--icmp-type'', Lit ''3''] None,
      Add iptables ''AllowICMP_F'' ''ACCEPT'' [Lit ''-p'', Lit ''icmp'', Lit ''--icmp-type'', Lit ''8'', Lit ''-m'', Lit ''limit'', Lit ''--limit'', Lit ''5/sec'', Lit ''--limit-burst'', Lit ''20''] None,
      Add iptables ''AllowICMP_F'' ''ACCEPT'' [Lit ''-p'', Lit ''icmp'', Lit ''--icmp-type'', Lit ''11''] None,
      Add iptables ''AllowICMP_F'' ''ACCEPT'' [Lit ''-p'', Lit ''icmp'', Lit ''--icmp-type'', Lit ''12''] None,
      Add iptables ''AllowICMP_F'' ''ACCEPT'' [Lit ''-p'', Lit ''icmp'', Lit ''--icmp-type'', Lit ''30''] None,
      Add iptables ''AllowICMP_F'' ''DROP'' [] None,
      Add iptables ''FORWARD'' ''AllowICMP_F'' [Lit ''-p'', Lit ''icmp''] None]"

text \<open>Lines 411--442: allow ICMP packets (ICMPv6).\<close>

definition allow_icmpv6 :: "fw_call list" where
  "allow_icmpv6 =
     [Run ip6tables [Lit ''-N'', Lit ''AllowICMP_I''],
      Add ip6tables ''AllowICMP_I'' ''ACCEPT'' [Lit ''-p'', Lit ''icmpv6'', Lit ''--icmpv6-type'', Lit ''1''] None,
      Add ip6tables ''AllowICMP_I'' ''ACCEPT'' [Lit ''-p'', Lit ''icmpv6'', Lit ''--icmpv6-type'', Lit ''2''] None,
      Add ip6tables ''AllowICMP_I'' ''ACCEPT'' [Lit ''-p'', Lit ''icmpv6'', Lit ''--icmpv6-type'', Lit ''3''] None,
      Add ip6tables ''AllowICMP_I'' ''ACCEPT'' [Lit ''-p'', Lit ''icmpv6'', Lit ''--icmpv6-type'', Lit ''4''] None,
      Add ip6tables ''AllowICMP_I'' ''ACCEPT'' [Lit ''-p'', Lit ''icmpv6'', Lit ''--icmpv6-type'', Lit ''128'', Lit ''-m'', Lit ''limit'', Lit ''--limit'', Lit ''5/sec'', Lit ''--limit-burst'', Lit ''10''] None,
      Add ip6tables ''AllowICMP_I'' ''ACCEPT'' [Lit ''-p'', Lit ''icmpv6'', Lit ''--icmpv6-type'', Lit ''129''] None,
      Add ip6tables ''AllowICMP_I'' ''ACCEPT'' [Lit ''-p'', Lit ''icmpv6'', Lit ''--icmpv6-type'', Lit ''130''] None,
      Add ip6tables ''AllowICMP_I'' ''ACCEPT'' [Lit ''-p'', Lit ''icmpv6'', Lit ''--icmpv6-type'', Lit ''131''] None,
      Add ip6tables ''AllowICMP_I'' ''ACCEPT'' [Lit ''-p'', Lit ''icmpv6'', Lit ''--icmpv6-type'', Lit ''132''] None,
      Add ip6tables ''AllowICMP_I'' ''ACCEPT'' [Lit ''-p'', Lit ''icmpv6'', Lit ''--icmpv6-type'', Lit ''133''] None,
      Add ip6tables ''AllowICMP_I'' ''ACCEPT'' [Lit ''-p'', Lit ''icmpv6'', Lit ''--icmpv6-type'', Lit ''134''] None,
      Add ip6tables ''AllowICMP_I'' ''ACCEPT'' [Lit ''-p'', Lit ''icmpv6'', Lit ''--icmpv6-type'', Lit ''135''] None,
      Add ip6tables ''AllowICMP_I'' ''ACCEPT'' [Lit ''-p'', Lit ''icmpv6'', Lit ''--icmpv6-type'', Lit ''136''] None,
      Add ip6tables ''AllowICMP_I'' ''ACCEPT'' [Lit ''-p'', Lit ''icmpv6'', Lit ''--icmpv6-type'', Lit ''151''] None,
      Add ip6tables ''AllowICMP_I'' ''ACCEPT'' [Lit ''-p'', Lit ''icmpv6'', Lit ''--icmpv6-type'', Lit ''152''] None,
      Add ip6tables ''AllowICMP_I'' ''ACCEPT'' [Lit ''-p'', Lit ''icmpv6'', Lit ''--icmpv6-type'', Lit ''153''] None,
      Add ip6tables ''AllowICMP_I'' ''DROP'' [] None,
      Add ip6tables ''INPUT'' ''AllowICMP_I'' [Lit ''-p'', Lit ''icmpv6''] None,
      Run ip6tables [Lit ''-N'', Lit ''AllowICMP_F''],
      Add ip6tables ''AllowICMP_F'' ''ACCEPT'' [Lit ''-p'', Lit ''icmpv6'', Lit ''--icmpv6-type'', Lit ''1''] None,
      Add ip6tables ''AllowICMP_F'' ''ACCEPT'' [Lit ''-p'', Lit ''icmpv6'', Lit ''--icmpv6-type'', Lit ''2''] None,
      Add ip6tables ''AllowICMP_F'' ''ACCEPT'' [Lit ''-p'', Lit ''icmpv6'', Lit ''--icmpv6-type'', Lit ''3''] None,
      Add ip6tables ''AllowICMP_F'' ''ACCEPT'' [Lit ''-p'', Lit ''icmpv6'', Lit ''--icmpv6-type'', Lit ''4''] None,
      Add ip6tables ''AllowICMP_F'' ''ACCEPT'' [Lit ''-p'', Lit ''icmpv6'', Lit ''--icmpv6-type'', Lit ''128'', Lit ''-m'', Lit ''limit'', Lit ''--limit'', Lit ''5/sec'', Lit ''--limit-burst'', Lit ''10''] None,
      Add ip6tables ''AllowICMP_F'' ''ACCEPT'' [Lit ''-p'', Lit ''icmpv6'', Lit ''--icmpv6-type'', Lit ''129''] None,
      Add ip6tables ''AllowICMP_F'' ''ACCEPT'' [Lit ''-p'', Lit ''icmpv6'', Lit ''--icmpv6-type'', Lit ''130''] None,
      Add ip6tables ''AllowICMP_F'' ''ACCEPT'' [Lit ''-p'', Lit ''icmpv6'', Lit ''--icmpv6-type'', Lit ''131''] None,
      Add ip6tables ''AllowICMP_F'' ''ACCEPT'' [Lit ''-p'', Lit ''icmpv6'', Lit ''--icmpv6-type'', Lit ''132''] None,
      Add ip6tables ''AllowICMP_F'' ''DROP'' [] None,
      Add ip6tables ''FORWARD'' ''AllowICMP_F'' [Lit ''-p'', Lit ''icmpv6''] None]"

text \<open>Lines 446--454: allow VPN clients to initiate new connections.\<close>

definition new_from_clients :: "service \<Rightarrow> fw_call list" where
  "new_from_clients s =
     [Add iptables ''FORWARD'' ''ACCEPT'' [Lit ''-s'', Str (client_subnet_ipv4 s), Lit ''-m'', Lit ''conntrack'', Lit ''--ctstate'', Lit ''NEW'', Lit ''-m'', Lit ''policy'', Lit ''--dir'', Lit ''in'', Lit ''--pol'', Lit ''ipsec''] None,
      Add ip6tables ''FORWARD'' ''ACCEPT'' [Lit ''-s'', Str (client_subnet_ipv6 s), Lit ''-m'', Lit ''conntrack'', Lit ''--ctstate'', Lit ''NEW'', Lit ''-m'', Lit ''policy'', Lit ''--dir'', Lit ''in'', Lit ''--pol'', Lit ''ipsec''] None]"

text \<open>Lines 458--466: allow packets that initiate new connections from the internet to VPN clients, if protection is disabled.\<close>

definition new_from_internet :: "service \<Rightarrow> fw_call list" where
  "new_from_internet s =
     (if \<not> protect_clients_from_internet s then
      [Add iptables ''FORWARD'' ''ACCEPT'' [Lit ''-d'', Str (client_subnet_ipv4 s), Lit ''-m'', Lit ''conntrack'', Lit ''--ctstate'', Lit ''NEW''] None,
       Add ip6tables ''FORWARD'' ''ACCEPT'' [Lit ''-d'', Str (client_subnet_ipv6 s), Lit ''-m'', Lit ''conntrack'', Lit ''--ctstate'', Lit ''NEW''] None]
     else [])"

text \<open>Lines 470--473: drop everything else.\<close>

definition drop_everything_else :: "fw_call list" where
  "drop_everything_else =
     [Add iptables ''INPUT'' ''DROP'' [] None,
      Add iptables ''FORWARD'' ''DROP'' [] None,
      Add ip6tables ''INPUT'' ''DROP'' [] None,
      Add ip6tables ''FORWARD'' ''DROP'' [] None]"

text \<open>Lines 485--499: Packet Mangling (MSS clamping).\<close>

definition packet_mangling :: "service \<Rightarrow> fw_call list" where
  "packet_mangling s =
     [Run iptables [Lit ''-t'', Lit ''mangle'', Lit ''-A'', Lit ''FORWARD'', Lit ''-p'', Lit ''tcp'', Lit ''--tcp-flags'', Lit ''SYN,RST'', Lit ''SYN'', Lit ''-s'', Str (client_subnet_ipv4 s), Lit ''-m'', Lit ''policy'', Lit ''--dir'', Lit ''in'', Lit ''--pol'', Lit ''ipsec'', Lit ''-m'', Lit ''tcpmss'', Lit ''--mss'', Lit ''1361:1500'', Lit ''-j'', Lit ''TCPMSS'', Lit ''--set-mss'', Lit ''1360''],
      Run ip6tables [Lit ''-t'', Lit ''mangle'', Lit ''-A'', Lit ''FORWARD'', Lit ''-p'', Lit ''tcp'', Lit ''--tcp-flags'', Lit ''SYN,RST'', Lit ''SYN'', Lit ''-s'', Str (client_subnet_ipv6 s), Lit ''-m'', Lit ''policy'', Lit ''--dir'', Lit ''in'', Lit ''--pol'', Lit ''ipsec'', Lit ''-m'', Lit ''tcpmss'', Lit ''--mss'', Lit ''1341:1500'', Lit ''-j'', Lit ''TCPMSS'', Lit ''--set-mss'', Lit ''1340'']]"

text \<open>Lines 506--513: configure masquerading to allow clients to access the internet (IPv4).\<close>

definition masquerading_ipv4 :: "service \<Rightarrow> fw_call list" where
  "masquerading_ipv4 s =
     [Add iptables ''POSTROUTING'' ''ACCEPT'' [Lit ''-t'', Lit ''nat'', Lit ''-s'', Str (client_subnet_ipv4 s), Lit ''-m'', Lit ''policy'', Lit ''--dir'', Lit ''out'', Lit ''--pol'', Lit ''ipsec''] None,
      Add iptables ''POSTROUTING'' ''MASQUERADE'' [Lit ''-t'', Lit ''nat'', Lit ''-s'', Str (client_subnet_ipv4 s)] None]"

text \<open>Lines 515--529: masquerading for a site-local IPv6 client subnet.\<close>

definition masquerading_ipv6 :: "service \<Rightarrow> fw_call list" where
  "masquerading_ipv6 s =
     (if client_subnet_ipv6_is_site_local s then
      [Add ip6tables ''POSTROUTING'' ''ACCEPT'' [Lit ''-t'', Lit ''nat'', Lit ''-s'', Str (client_subnet_ipv6 s), Lit ''-m'', Lit ''policy'', Lit ''--dir'', Lit ''out'', Lit ''--pol'', Lit ''ipsec''] None,
       Add ip6tables ''POSTROUTING'' ''MASQUERADE'' [Lit ''-t'', Lit ''nat'', Lit ''-s'', Str (client_subnet_ipv6 s)] None]
     else [])"

definition configure_firewall :: "service \<Rightarrow> fw_call list" where
  "configure_firewall s =
     rh0_exploit_protection
     @ anti_spoofing s
     @ allow_localhost
     @ allow_ipsec
     @ existing_connections
     @ allow_dns s
     @ block_interclient s
     @ allow_icmp
     @ allow_icmpv6
     @ new_from_clients s
     @ new_from_internet s
     @ drop_everything_else
     @ packet_mangling s
     @ masquerading_ipv4 s
     @ masquerading_ipv6 s"

subsection \<open>Reading a recorded call\<close>

text \<open>
  The table, chain, target and matches of a rule as \<^verbatim>\<open>iptables\<close> reads them from the
  arguments: the word after an option is its value, and a rule without \<^verbatim>\<open>-t\<close> goes to
  the table \<^verbatim>\<open>filter\<close>.
\<close>

fun call_tool :: "fw_call \<Rightarrow> tool" where
  "call_tool (Add t chain target args comment) = t"
| "call_tool (Run t args) = t"

fun call_args :: "fw_call \<Rightarrow> arg list" where
  "call_args (Add t chain target args comment) = args"
| "call_args (Run t args) = args"

fun opt_value :: "string \<Rightarrow> arg list \<Rightarrow> arg option" where
  "opt_value opt (x # y # xs) = (if x = Lit opt then Some y else opt_value opt (y # xs))"
| "opt_value opt xs = None"

definition call_table :: "fw_call \<Rightarrow> string" where
  "call_table c = (case opt_value ''-t'' (call_args c) of Some (Lit t) \<Rightarrow> t | _ \<Rightarrow> ''filter'')"

fun call_chain :: "fw_call \<Rightarrow> string option" where
  "call_chain (Add t chain target args comment) = Some chain"
| "call_chain (Run t args) = (case opt_value ''-A'' args of Some (Lit chain) \<Rightarrow> Some chain | _ \<Rightarrow> None)"

fun call_target :: "fw_call \<Rightarrow> string option" where
  "call_target (Add t chain target args comment) = Some target"
| "call_target (Run t args) = (case opt_value ''-j'' args of Some (Lit target) \<Rightarrow> Some target | _ \<Rightarrow> None)"

definition call_source :: "fw_call \<Rightarrow> arg option" where
  "call_source c = opt_value ''-s'' (call_args c)"

definition call_destination :: "fw_call \<Rightarrow> arg option" where
  "call_destination c = opt_value ''-d'' (call_args c)"

text \<open>The networks whose \<^verbatim>\<open>str\<close> is among the arguments of a call.\<close>

fun arg_networks :: "arg list \<Rightarrow> ipnetwork list" where
  "arg_networks [] = []"
| "arg_networks (Lit x # xs) = arg_networks xs"
| "arg_networks (Str n # xs) = n # arg_networks xs"

text \<open>\<open>has_infix ys xs\<close>: the words \<open>ys\<close> occur in \<open>xs\<close>, next to each other and in order.\<close>

fun has_infix :: "'a list \<Rightarrow> 'a list \<Rightarrow> bool" where
  "has_infix ys [] = (ys = [])"
| "has_infix ys (x # xs) = (take (length ys) (x # xs) = ys \<or> has_infix ys xs)"

text \<open>The match \<^verbatim>\<open>-m policy --dir d --pol p\<close>.\<close>

definition policy_match :: "string \<Rightarrow> string \<Rightarrow> arg list" where
  "policy_match d p = [Lit ''-m'', Lit ''policy'', Lit ''--dir'', Lit d, Lit ''--pol'', Lit p]"

definition has_policy :: "string \<Rightarrow> string \<Rightarrow> fw_call \<Rightarrow> bool" where
  "has_policy d p c = has_infix (policy_match d p) (call_args c)"

text \<open>A rule of the given tool, table and chain.\<close>

definition in_chain :: "tool \<Rightarrow> string \<Rightarrow> string \<Rightarrow> fw_call \<Rightarrow> bool" where
  "in_chain t table chain c =
     (call_tool c = t \<and> call_table c = table \<and> call_chain c = Some chain)"

text \<open>
  \<open>emitted_before P Q calls\<close>: some call with \<open>P\<close> is made, and a call with \<open>Q\<close> is made
  later.
\<close>

fun emitted_before :: "('a \<Rightarrow> bool) \<Rightarrow> ('a \<Rightarrow> bool) \<Rightarrow> 'a list \<Rightarrow> bool" where
  "emitted_before P Q [] = False"
| "emitted_before P Q (x # xs) = (if P x then list_ex Q xs else emitted_before P Q xs)"

subsection \<open>Rules that the properties speak of\<close>

text \<open>
  The final rule of a chain (\<open>default_deny\<close>); a rule that drops forwarded packets
  between two addresses of the subnet \<open>n\<close>; a rule that accepts forwarded packets to the
  subnet \<open>n\<close> without asking that they arrived under an IPSec policy; the rule of lines
  460--466; a masquerading rule for the subnet \<open>n\<close>, and one that also asks for an
  outgoing IPSec policy; the networks named in the calls of one tool.
\<close>

definition default_deny :: "tool \<Rightarrow> string \<Rightarrow> fw_call \<Rightarrow> bool" where
  "default_deny t chain c = (c = Add t chain ''DROP'' [] None)"

definition blocks_interclient :: "tool \<Rightarrow> ipnetwork \<Rightarrow> fw_call \<Rightarrow> bool" where
  "blocks_interclient t n c =
     (in_chain t ''filter'' ''FORWARD'' c \<and> call_target c = Some ''DROP'' \<and>
      call_source c = Some (Str n) \<and> call_destination c = Some (Str n))"

definition accepts_unrestricted_to :: "tool \<Rightarrow> ipnetwork \<Rightarrow> fw_call \<Rightarrow> bool" where
  "accepts_unrestricted_to t n c =
     (in_chain t ''filter'' ''FORWARD'' c \<and> call_target c = Some ''ACCEPT'' \<and>
      call_destination c = Some (Str n) \<and> \<not> has_policy ''in'' ''ipsec'' c)"

definition accepts_new_to :: "tool \<Rightarrow> ipnetwork \<Rightarrow> fw_call \<Rightarrow> bool" where
  "accepts_new_to t n c =
     (c = Add t ''FORWARD'' ''ACCEPT''
            [Lit ''-d'', Str n, Lit ''-m'', Lit ''conntrack'', Lit ''--ctstate'', Lit ''NEW''] None)"

definition masquerades :: "tool \<Rightarrow> ipnetwork \<Rightarrow> fw_call \<Rightarrow> bool" where
  "masquerades t n c =
     (in_chain t ''nat'' ''POSTROUTING'' c \<and> call_target c = Some ''MASQUERADE'' \<and>
      call_source c = Some (Str n))"

definition masquerades_ipsec :: "tool \<Rightarrow> ipnetwork \<Rightarrow> fw_call \<Rightarrow> bool" where
  "masquerades_ipsec t n c = (masquerades t n c \<and> has_policy ''out'' ''ipsec'' c)"

definition call_networks :: "fw_call \<Rightarrow> ipnetwork list" where
  "call_networks c = arg_networks (call_args c)"

definition networks_matched :: "tool \<Rightarrow> fw_call list \<Rightarrow> ipnetwork list" where
  "networks_matched t calls = concat (map call_networks (filter (\<lambda>c. call_tool c = t) calls))"


subsection \<open>configure and the order of a start-up\<close>

text \<open>
  \<^verbatim>\<open>configure\<close> computes the addresses (which may raise) before it makes the first call
  to a packet filter helper.  Its result here is the list of helper calls made, in order,
  together with the exception or the addresses.  The set-up of the PKI, the rendering of
  the configuration files and the \<^verbatim>\<open>ip\<close>, \<^verbatim>\<open>sysctl\<close> and \<^verbatim>\<open>mount\<close> commands lie
  between these steps and are not recorded.
\<close>

definition configure :: "service \<Rightarrow> fw_call list \<times> (error + addressing)" where
  "configure s =
     (case client_addresses s of
        Inl e \<Rightarrow> ([], Inl e)
      | Inr a \<Rightarrow> (configure_firewall s, Inr a))"

text \<open>
  Modelled from the spec: the start-up driver that owns the service object (module
  \<^verbatim>\<open>cc_service\<close> and its caller) is not among the sources.  It calls \<^verbatim>\<open>prepare\<close> and then
  \<^verbatim>\<open>configure\<close>; an exception of \<^verbatim>\<open>prepare\<close> aborts the start-up before \<^verbatim>\<open>configure\<close>
  runs, as the docstring of \<^verbatim>\<open>prepare\<close> says.
\<close>

definition startup :: "settings \<Rightarrow> fw_call list \<times> (error + addressing)" where
  "startup env =
     (case prepare env of
        Inl e \<Rightarrow> ([], Inl e)
      | Inr s \<Rightarrow> configure s)"


subsection \<open>External PKI\<close>

text \<open>Lines 27--30: where keys and certificates for production use are expected.\<close>

definition EXTERNAL_PKI_BASE_DIR :: string where
  "EXTERNAL_PKI_BASE_DIR = ''/data/external_ca''"

definition EXTERNAL_PKI_CA_CERT_FILE :: string where
  "EXTERNAL_PKI_CA_CERT_FILE = EXTERNAL_PKI_BASE_DIR @ ''/ca-cert.pem''"

definition EXTERNAL_PKI_SERVER_CERT_FILE :: string where
  "EXTERNAL_PKI_SERVER_CERT_FILE = EXTERNAL_PKI_BASE_DIR @ ''/server/cert.pem''"

definition EXTERNAL_PKI_SERVER_KEY_FILE :: string where
  "EXTERNAL_PKI_SERVER_KEY_FILE = EXTERNAL_PKI_BASE_DIR @ ''/server/key.pem''"

text \<open>
  \<^verbatim>\<open>init_pki_external\<close>, lines 570--574: the body is \<^verbatim>\<open>pass\<close>.  The file system (a map
  from paths to contents) is a parameter so that the result can be compared over
  different file systems; the method returns normally and leaves the object as it is.
\<close>

definition init_pki_external :: "(string \<rightharpoonup> string) \<Rightarrow> service \<Rightarrow> error + service" where
  "init_pki_external files s = Inr s"

subsection \<open>Settings used as examples\<close>

text \<open>
  The defaults that \<^verbatim>\<open>prepare\<close> passes to the \<^verbatim>\<open>get_env_setting\<close> helpers: the subnets
  10.0.0.0/24 and fd00:dead:beef:affe::/64, no traffic between clients, clients
  protected from the internet, internal PKI.
\<close>

definition default_subnet_ipv4 :: ipnetwork where
  "default_subnet_ipv4 = IPNetwork4 (ipv4 10 0 0 0) 24"

definition default_subnet_ipv6 :: ipnetwork where
  "default_subnet_ipv6 = IPNetwork6 (ipv6 [0xfd00, 0xdead, 0xbeef, 0xaffe, 0, 0, 0, 0]) 64"

definition default_settings :: settings where
  "default_settings =
     \<lparr>ALLOW_INTERCLIENT_COMMUNICATION = False,
      CLIENT_SUBNET_IPV4 = Some default_subnet_ipv4,
      CLIENT_SUBNET_IPV6 = Some default_subnet_ipv6,
      USE_INTERNAL_PKI = True,
      PROTECT_CLIENTS_FROM_INTERNET = True\<rparr>"

definition default_service :: service where
  "default_service =
     \<lparr>allow_interclient_communication = False,
      client_subnet_ipv4 = default_subnet_ipv4,
      client_subnet_ipv6 = default_subnet_ipv6,
      client_subnet_ipv6_is_gua = False,
      client_subnet_ipv6_is_site_local = True,
      use_internal_pki = True,
      protect_clients_from_internet = True\<rparr>"

text \<open>A global unicast subnet (2001:db8:1:2::/64), a multicast one (ff02::/16), a small one.\<close>

definition gua_subnet_ipv6 :: ipnetwork where
  "gua_subnet_ipv6 = IPNetwork6 (ipv6 [0x2001, 0xdb8, 1, 2, 0, 0, 0, 0]) 64"

definition multicast_subnet_ipv6 :: ipnetwork where
  "multicast_subnet_ipv6 = IPNetwork6 (ipv6 [0xff02, 0, 0, 0, 0, 0, 0, 0]) 16"

definition narrow_subnet_ipv6 :: ipnetwork where
  "narrow_subnet_ipv6 = IPNetwork6 (ipv6 [0xfd00, 0xdead, 0xbeef, 0xaffe, 0, 0, 0xabcd, 0]) 112"

definition open_service :: service where
  "open_service =
     default_service
       \<lparr>allow_interclient_communication := True,
        client_subnet_ipv6 := gua_subnet_ipv6,
        client_subnet_ipv6_is_gua := True,
        client_subnet_ipv6_is_site_local := False,
        protect_clients_from_internet := False\<rparr>"

section \<open>Properties\<close>

subsection \<open>Arithmetic of networks\<close>

text \<open>
  For a network as the constructor returns it, \<open>first\<close> clears the host bits, \<open>last_ip\<close>
  sets them, and the size is a power of two.
\<close>

lemma bit_bounded: "0 \<le> v \<Longrightarrow> v < 2 ^ w \<Longrightarrow> bit (v::int) n \<Longrightarrow> n < w"
proof -
  assume a: "0 \<le> v" "v < 2 ^ w" "bit v n"
  have "take_bit w v = v" using a by (simp add: take_bit_int_eq_self)
  then have "bit (take_bit w v) n" using a by simp
  then show "n < w" by (simp add: bit_take_bit_iff)
qed

lemma and_masks: "0 \<le> v \<Longrightarrow> v < 2 ^ w \<Longrightarrow> k \<le> w \<Longrightarrow> (v::int) AND (mask w XOR mask k) = push_bit k (drop_bit k v)"
  by (rule bit_eqI) (auto simp: bit_simps dest: bit_bounded)

lemma or_mask: "(v::int) OR mask k = push_bit k (drop_bit k v) + mask k"
proof -
  have "v OR mask k = push_bit k (drop_bit k v) OR mask k"
    by (rule bit_eqI) (auto simp: bit_simps)
  also have "\<dots> = push_bit k (drop_bit k v) + mask k"
    by (rule disjunctive_add [symmetric]) (auto simp: bit_simps)
  finally show ?thesis .
qed

lemma hostmask_int_mask: "hostmask_int n = mask (width (ip_version n) - prefixlen n)"
  by (simp add: hostmask_int_def mask_eq_exp_minus_1 push_bit_eq_mult)

lemma max_int_mask: "max_int v = mask (width v)"
  by (simp add: max_int_def mask_eq_exp_minus_1)

lemma first_eq:
  assumes "ipnetwork_ok n"
  shows "first n = push_bit (width (ip_version n) - prefixlen n) (drop_bit (width (ip_version n) - prefixlen n) (ip_value n))"
proof -
  have "ip_value n < 2 ^ width (ip_version n)" using assms by (simp add: ipnetwork_ok_def max_int_def)
  moreover have "0 \<le> ip_value n" using assms by (simp add: ipnetwork_ok_def)
  ultimately show ?thesis
    unfolding first_def hostmask_int_mask max_int_mask by (intro and_masks) simp_all
qed

lemma last_ip_eq:
  assumes "ipnetwork_ok n"
  shows "last_ip n = first n + 2 ^ (width (ip_version n) - prefixlen n) - 1"
  unfolding first_eq [OF assms] last_ip_def hostmask_int_mask or_mask
  by (simp add: mask_eq_exp_minus_1)

lemma size_ip_eq: "ipnetwork_ok n \<Longrightarrow> size_ip n = 2 ^ (width (ip_version n) - prefixlen n)"
  by (simp add: size_ip_def last_ip_eq)

lemma first_bounds:
  assumes "ipnetwork_ok n"
  shows "0 \<le> first n" and "first n \<le> ip_value n"
proof -
  have v: "0 \<le> ip_value n" using assms by (simp add: ipnetwork_ok_def)
  show "0 \<le> first n" unfolding first_def using v by simp
  show "first n \<le> ip_value n" unfolding first_def using v by (simp add: AND_upper1)
qed


lemma getitem_index:
  assumes "ipnetwork_ok n" "0 \<le> i" "i < 2 ^ (width (ip_version n) - prefixlen n)"
  shows "getitem n i = Inr (IPAddress (first n + i) (ip_version n))"
  using assms by (simp add: getitem_def size_ip_eq)

lemma getitem_last:
  assumes "ipnetwork_ok n"
  shows "getitem n (- 1) = Inr (IPAddress (last_ip n) (ip_version n))"
proof -
  have "(1::int) \<le> 2 ^ (width (ip_version n) - prefixlen n)" by simp
  then show ?thesis using assms by (simp add: getitem_def size_ip_eq)
qed

lemma getitem_out_of_range:
  assumes "ipnetwork_ok n" "0 \<le> i" "2 ^ (width (ip_version n) - prefixlen n) \<le> i"
  shows "getitem n i = Inl IndexError"
  using assms by (simp add: getitem_def size_ip_eq)

lemma four_le_power: "2 \<le> k \<Longrightarrow> (4::int) \<le> 2 ^ k"
proof -
  assume "2 \<le> k"
  then have "(2::int) ^ 2 \<le> 2 ^ k" by (intro power_increasing) simp_all
  then show ?thesis by simp
qed

lemma index_1_2_last:
  assumes "ipnetwork_ok n" "2 \<le> width (ip_version n) - prefixlen n"
  shows "getitem n 1 = Inr (IPAddress (first n + 1) (ip_version n))"
    and "getitem n 2 = Inr (IPAddress (first n + 2) (ip_version n))"
proof -
  have "(4::int) \<le> 2 ^ (width (ip_version n) - prefixlen n)"
    using assms(2) by (rule four_le_power)
  then show "getitem n 1 = Inr (IPAddress (first n + 1) (ip_version n))"
    and "getitem n 2 = Inr (IPAddress (first n + 2) (ip_version n))"
    using assms(1) by (simp_all add: getitem_index)
qed


subsection \<open>Addresses of the server and of the clients\<close>

text \<open>
  Claim C2.  For an IPv4 client subnet with a prefix of at most 30 bits (at least four
  addresses), lines 186--188 yield the address at index 1 of the network as the
  server's own address, the address at index 2 as the start of the client range and the
  last address of the network as its end; the last address lies \<open>2 ^ (32 - prefixlen) - 1\<close>
  above the network address.  For 10.0.0.0/24 these are 10.0.0.1, 10.0.0.2 and
  10.0.0.255.
\<close>

theorem ipv4_server_address_and_client_range:
  "(ip_version n = 4 \<and> ipnetwork_ok n \<and> prefixlen n \<le> 30 \<longrightarrow>
      client_addresses_ipv4 n =
        Inr (IPAddress (first n + 1) 4, IPAddress (first n + 2) 4, IPAddress (last_ip n) 4) \<and>
      last_ip n = first n + 2 ^ (32 - prefixlen n) - 1) \<and>
   client_addresses_ipv4 (IPNetwork4 (ipv4 10 0 0 0) 24) =
     Inr (IPAddress (ipv4 10 0 0 1) 4, IPAddress (ipv4 10 0 0 2) 4, IPAddress (ipv4 10 0 0 255) 4)"
proof (intro conjI impI)
  assume a: "ip_version n = 4 \<and> ipnetwork_ok n \<and> prefixlen n \<le> 30"
  then have k: "2 \<le> width (ip_version n) - prefixlen n" by (auto simp add: width_def)
  from a show "client_addresses_ipv4 n =
        Inr (IPAddress (first n + 1) 4, IPAddress (first n + 2) 4, IPAddress (last_ip n) 4)"
    using index_1_2_last [OF _ k] getitem_last [of n] by (simp add: client_addresses_ipv4_def)
  from a show "last_ip n = first n + 2 ^ (32 - prefixlen n) - 1"
    using last_ip_eq [of n] by (simp add: width_def)
next
  show "client_addresses_ipv4 (IPNetwork4 (ipv4 10 0 0 0) 24) =
     Inr (IPAddress (ipv4 10 0 0 1) 4, IPAddress (ipv4 10 0 0 2) 4, IPAddress (ipv4 10 0 0 255) 4)"
    by (simp add: client_addresses_ipv4_def getitem_def size_ip_def first_def last_ip_def
        hostmask_int_def max_int_def width_def IPNetwork4_def ipv4_def)
qed

text \<open>The subnet 192.168.7.77/30 (host bits set): the addresses are .77, .78 and .79.\<close>

theorem ipv4_server_address_and_client_range_witness:
  "ip_version (IPNetwork4 (ipv4 192 168 7 77) 30) = 4 \<and>
   ipnetwork_ok (IPNetwork4 (ipv4 192 168 7 77) 30) \<and>
   prefixlen (IPNetwork4 (ipv4 192 168 7 77) 30) \<le> 30 \<and>
   client_addresses_ipv4 (IPNetwork4 (ipv4 192 168 7 77) 30) =
     Inr (IPAddress (ipv4 192 168 7 77) 4, IPAddress (ipv4 192 168 7 78) 4,
          IPAddress (ipv4 192 168 7 79) 4)"
  using ipv4_server_address_and_client_range [of "IPNetwork4 (ipv4 192 168 7 77) 30"]
  by (simp add: ipnetwork_ok_def first_def last_ip_def
        hostmask_int_def max_int_def width_def IPNetwork4_def ipv4_def)

lemma subnet_first_96:
  assumes "ip_version n = 6" "ipnetwork_ok n" "prefixlen n < 96"
  shows "subnet_first n 96 = Inr (IPNetwork6 (first n) 96)"
  using assms by (simp add: subnet_first_def width_def IPNetwork6_def)

lemma first_upper: 
  assumes "ipnetwork_ok n" shows "first n \<le> max_int (ip_version n)"
  using first_bounds(2) [OF assms] assms by (simp add: ipnetwork_ok_def)

lemma first_subnet_first:
  assumes "ip_version n = 6" "ipnetwork_ok n" "prefixlen n < 96"
  shows "first (IPNetwork6 (first n) 96) = first n"
proof -
  let ?k = "128 - prefixlen n"
  have k: "32 \<le> ?k" using assms by simp
  have f: "first n = push_bit ?k (drop_bit ?k (ip_value n))"
    using first_eq [OF assms(2)] assms(1) by (simp add: width_def)
  have ok: "ipnetwork_ok (IPNetwork6 (first n) 96)"
    using first_bounds(1) [OF assms(2)] first_upper [OF assms(2)] assms(1)
    by (simp add: ipnetwork_ok_def IPNetwork6_def width_def)
  have "first (IPNetwork6 (first n) 96) = push_bit 32 (drop_bit 32 (first n))"
    using first_eq [OF ok] by (simp add: IPNetwork6_def width_def)
  also have "\<dots> = first n"
    unfolding f using k by (intro bit_eqI) (auto simp: bit_simps)
  finally show ?thesis .
qed

lemma effective_ok:
  assumes "ip_version n = 6" "ipnetwork_ok n"
  shows "ipnetwork_ok (IPNetwork6 (first n) 96)"
  using first_bounds(1) [OF assms(2)] first_upper [OF assms(2)] assms(1)
  by (simp add: ipnetwork_ok_def IPNetwork6_def width_def)

text \<open>
  Claim C3.  For an IPv6 client subnet with a prefix of 96 bits or more, the effective
  subnet of lines 191--194 is the subnet itself; with a shorter prefix it is the /96 at
  the base address of the subnet, whose own base address is the same.  The server
  address and the bounds of the client range are the addresses at index 1, at index 2
  and the last address of the effective subnet (for a prefix of 96 to 126 bits, of the
  subnet itself).
\<close>

theorem ipv6_effective_subnet_and_addresses:
  "ip_version n = 6 \<and> ipnetwork_ok n \<longrightarrow>
     (96 \<le> prefixlen n \<longrightarrow> effective_client_subnet_ipv6 n = Inr n) \<and>
     (96 \<le> prefixlen n \<and> prefixlen n \<le> 126 \<longrightarrow>
        client_addresses_ipv6 n =
          Inr (IPAddress (first n + 1) 6, IPAddress (first n + 2) 6, IPAddress (last_ip n) 6)) \<and>
     (prefixlen n < 96 \<longrightarrow>
        effective_client_subnet_ipv6 n = Inr (IPNetwork6 (first n) 96) \<and>
        first (IPNetwork6 (first n) 96) = first n \<and>
        last_ip (IPNetwork6 (first n) 96) = first n + 2 ^ 32 - 1 \<and>
        client_addresses_ipv6 n =
          Inr (IPAddress (first n + 1) 6, IPAddress (first n + 2) 6,
               IPAddress (first n + 2 ^ 32 - 1) 6))"
proof (intro impI conjI)
  assume "ip_version n = 6 \<and> ipnetwork_ok n" "96 \<le> prefixlen n"
  then show "effective_client_subnet_ipv6 n = Inr n"
    by (simp add: effective_client_subnet_ipv6_def)
next
  assume a: "ip_version n = 6 \<and> ipnetwork_ok n" "96 \<le> prefixlen n \<and> prefixlen n \<le> 126"
  then have k: "2 \<le> width (ip_version n) - prefixlen n" by (auto simp add: width_def)
  from a show "client_addresses_ipv6 n =
          Inr (IPAddress (first n + 1) 6, IPAddress (first n + 2) 6, IPAddress (last_ip n) 6)"
    using index_1_2_last [OF _ k] getitem_last [of n]
    by (simp add: client_addresses_ipv6_def effective_client_subnet_ipv6_def)
next
  assume a: "ip_version n = 6 \<and> ipnetwork_ok n" "prefixlen n < 96"
  then have v: "ip_version n = 6" and ok: "ipnetwork_ok n" by simp_all
  let ?e = "IPNetwork6 (first n) 96"
  show eff: "effective_client_subnet_ipv6 n = Inr ?e"
    using subnet_first_96 [OF v ok a(2)] a(2) by (simp add: effective_client_subnet_ipv6_def)
  show fst: "first ?e = first n" by (rule first_subnet_first [OF v ok a(2)])
  have eok: "ipnetwork_ok ?e" by (rule effective_ok [OF v ok])
  show lst: "last_ip ?e = first n + 2 ^ 32 - 1"
    using last_ip_eq [OF eok] fst by (simp add: IPNetwork6_def width_def)
  have k: "2 \<le> width (ip_version ?e) - prefixlen ?e" by (simp add: IPNetwork6_def width_def)
  have v6: "ip_version ?e = 6" by (simp add: IPNetwork6_def)
  show "client_addresses_ipv6 n =
          Inr (IPAddress (first n + 1) 6, IPAddress (first n + 2) 6,
               IPAddress (first n + 2 ^ 32 - 1) 6)"
    using index_1_2_last [OF eok k] getitem_last [OF eok] eff fst lst v6
    by (simp add: client_addresses_ipv6_def)
qed

text \<open>
  The default fd00:dead:beef:affe::/64 is narrowed to fd00:dead:beef:affe::/96; the
  subnet fd00:dead:beef:affe::abcd:0/112 is used as it is.
\<close>

theorem ipv6_effective_subnet_and_addresses_witness:
  "(ip_version default_subnet_ipv6 = 6 \<and> ipnetwork_ok default_subnet_ipv6 \<and>
    prefixlen default_subnet_ipv6 < 96 \<and>
    effective_client_subnet_ipv6 default_subnet_ipv6 =
      Inr (IPNetwork6 (ipv6 [0xfd00, 0xdead, 0xbeef, 0xaffe, 0, 0, 0, 0]) 96) \<and>
    client_addresses_ipv6 default_subnet_ipv6 =
      Inr (IPAddress (ipv6 [0xfd00, 0xdead, 0xbeef, 0xaffe, 0, 0, 0, 1]) 6,
           IPAddress (ipv6 [0xfd00, 0xdead, 0xbeef, 0xaffe, 0, 0, 0, 2]) 6,
           IPAddress (ipv6 [0xfd00, 0xdead, 0xbeef, 0xaffe, 0, 0, 0xffff, 0xffff]) 6)) \<and>
   (ip_version narrow_subnet_ipv6 = 6 \<and> ipnetwork_ok narrow_subnet_ipv6 \<and>
    96 \<le> prefixlen narrow_subnet_ipv6 \<and> prefixlen narrow_subnet_ipv6 \<le> 126 \<and>
    effective_client_subnet_ipv6 narrow_subnet_ipv6 = Inr narrow_subnet_ipv6 \<and>
    client_addresses_ipv6 narrow_subnet_ipv6 =
      Inr (IPAddress (ipv6 [0xfd00, 0xdead, 0xbeef, 0xaffe, 0, 0, 0xabcd, 1]) 6,
           IPAddress (ipv6 [0xfd00, 0xdead, 0xbeef, 0xaffe, 0, 0, 0xabcd, 2]) 6,
           IPAddress (ipv6 [0xfd00, 0xdead, 0xbeef, 0xaffe, 0, 0, 0xabcd, 0xffff]) 6))"
  using ipv6_effective_subnet_and_addresses [of default_subnet_ipv6] ipv6_effective_subnet_and_addresses [of narrow_subnet_ipv6]
  by (simp add: default_subnet_ipv6_def narrow_subnet_ipv6_def ipnetwork_ok_def first_def last_ip_def
        hostmask_int_def max_int_def width_def IPNetwork6_def ipv6_def)


text \<open>An IPv4 subnet of one or two addresses has no index 2.\<close>

lemma client_addresses_ipv4_too_small:
  assumes "ip_version n = 4" "ipnetwork_ok n" "31 \<le> prefixlen n"
  shows "client_addresses_ipv4 n = Inl IndexError"
proof -
  have "prefixlen n \<le> 32" using assms by (simp add: ipnetwork_ok_def width_def)
  then consider "prefixlen n = 31" | "prefixlen n = 32" using assms(3) by linarith
  then show ?thesis
  proof cases
    case 1
    then have "getitem n 1 = Inr (IPAddress (first n + 1) 4)" "getitem n 2 = Inl IndexError"
      using assms getitem_index [of n 1] getitem_out_of_range [of n 2] by (simp_all add: width_def)
    then show ?thesis by (simp add: client_addresses_ipv4_def)
  next
    case 2
    then have "getitem n 1 = Inl IndexError"
      using assms getitem_out_of_range [of n 1] by (simp add: width_def)
    then show ?thesis by (simp add: client_addresses_ipv4_def)
  qed
qed

text \<open>
  Claim C8.  For an IPv4 client subnet with no two addresses beyond the network address
  (a /31 or a /32), \<^verbatim>\<open>configure\<close> raises the \<^verbatim>\<open>IndexError\<close> of netaddr in lines
  186--187, before the first call to a packet filter helper: no rule has been added.
  The same holds for a start-up whose \<^verbatim>\<open>prepare\<close> returned this service object.
\<close>

theorem small_ipv4_subnet_fails_before_rules:
  "ip_version (client_subnet_ipv4 s) = 4 \<and> ipnetwork_ok (client_subnet_ipv4 s) \<and>
   31 \<le> prefixlen (client_subnet_ipv4 s) \<longrightarrow>
     configure s = ([], Inl IndexError) \<and>
     (\<forall>env. prepare env = Inr s \<longrightarrow> startup env = ([], Inl IndexError))"
  using client_addresses_ipv4_too_small [of "client_subnet_ipv4 s"]
  by (simp add: configure_def client_addresses_def startup_def)

subsection \<open>Classification of the IPv6 client subnet\<close>

lemma default_subnet_ipv6_private: "is_private default_subnet_ipv6"
  by (simp add: is_private_def default_subnet_ipv6_def IPV6_PRIVATE_def contains_def
      IPNetwork6_def ipv6_def width_def drop_bit_eq_div)

lemma gua_subnet_ipv6_class: "is_unicast gua_subnet_ipv6 \<and> \<not> is_private gua_subnet_ipv6"
  by (simp add: is_private_def is_unicast_def is_multicast_def is_link_local_def gua_subnet_ipv6_def
      IPV6_PRIVATE_def IPV6_MULTICAST_def IPV6_LINK_LOCAL_def contains_def
      IPNetwork6_def ipv6_def width_def drop_bit_eq_div)

lemma multicast_subnet_ipv6_class: "\<not> is_unicast multicast_subnet_ipv6 \<and> \<not> is_private multicast_subnet_ipv6"
  by (simp add: is_private_def is_unicast_def is_multicast_def is_link_local_def multicast_subnet_ipv6_def
      IPV6_PRIVATE_def IPV6_MULTICAST_def IPV6_LINK_LOCAL_def contains_def
      IPNetwork6_def ipv6_def width_def drop_bit_eq_div)

lemma prepare_default: "prepare default_settings = Inr default_service"
  using default_subnet_ipv6_private
  by (simp add: prepare_def default_settings_def default_service_def)

text \<open>Start-ups with 10.0.0.0/31, and service objects with 10.0.0.0/31 and 10.0.0.7/32.\<close>

theorem small_ipv4_subnet_fails_before_rules_witness:
  "prepare (default_settings\<lparr>CLIENT_SUBNET_IPV4 := Some (IPNetwork4 (ipv4 10 0 0 0) 31)\<rparr>) =
     Inr (default_service\<lparr>client_subnet_ipv4 := IPNetwork4 (ipv4 10 0 0 0) 31\<rparr>) \<and>
   startup (default_settings\<lparr>CLIENT_SUBNET_IPV4 := Some (IPNetwork4 (ipv4 10 0 0 0) 31)\<rparr>) =
     ([], Inl IndexError) \<and>
   configure (default_service\<lparr>client_subnet_ipv4 := IPNetwork4 (ipv4 10 0 0 0) 31\<rparr>) =
     ([], Inl IndexError) \<and>
   configure (default_service\<lparr>client_subnet_ipv4 := IPNetwork4 (ipv4 10 0 0 7) 32\<rparr>) =
     ([], Inl IndexError)"
proof -
  have p: "prepare (default_settings\<lparr>CLIENT_SUBNET_IPV4 := Some (IPNetwork4 (ipv4 10 0 0 0) 31)\<rparr>) =
     Inr (default_service\<lparr>client_subnet_ipv4 := IPNetwork4 (ipv4 10 0 0 0) 31\<rparr>)"
    using default_subnet_ipv6_private
    by (simp add: prepare_def default_settings_def default_service_def)
  show ?thesis
    using p small_ipv4_subnet_fails_before_rules [of "default_service\<lparr>client_subnet_ipv4 := IPNetwork4 (ipv4 10 0 0 0) 31\<rparr>"]
      small_ipv4_subnet_fails_before_rules [of "default_service\<lparr>client_subnet_ipv4 := IPNetwork4 (ipv4 10 0 0 7) 32\<rparr>"]
    by (simp add: default_service_def ipnetwork_ok_def max_int_def width_def IPNetwork4_def ipv4_def)
qed

text \<open>
  Claim C4.  Once both subnets have been parsed, \<^verbatim>\<open>prepare\<close> marks the IPv6 client subnet
  as GUA exactly when it is unicast and not private, as site-local exactly when it is
  private, and never as both or as neither; it returns a service object exactly when
  the subnet is unicast or private.  Otherwise it raises \<^verbatim>\<open>RuntimeError\<close>, and the
  start-up ends without a single call to a packet filter helper.
\<close>

theorem ipv6_classification:
  "CLIENT_SUBNET_IPV4 env = Some n4 \<and> CLIENT_SUBNET_IPV6 env = Some n6 \<longrightarrow>
     (\<forall>s. prepare env = Inr s \<longrightarrow>
        (client_subnet_ipv6_is_gua s \<longleftrightarrow> is_unicast n6 \<and> \<not> is_private n6) \<and>
        (client_subnet_ipv6_is_site_local s \<longleftrightarrow> is_private n6) \<and>
        (client_subnet_ipv6_is_gua s \<longleftrightarrow> \<not> client_subnet_ipv6_is_site_local s)) \<and>
     ((\<exists>s. prepare env = Inr s) \<longleftrightarrow> is_unicast n6 \<or> is_private n6) \<and>
     (\<not> is_unicast n6 \<and> \<not> is_private n6 \<longrightarrow>
        prepare env = Inl RuntimeError \<and> startup env = ([], Inl RuntimeError))"
  by (auto simp add: prepare_def startup_def)

text \<open>
  The default subnet is site-local, 2001:db8:1:2::/64 is GUA, and the multicast range
  ff02::/16 is rejected.
\<close>

theorem ipv6_classification_witness:
  "prepare default_settings = Inr default_service \<and>
   client_subnet_ipv6_is_site_local default_service \<and> \<not> client_subnet_ipv6_is_gua default_service \<and>
   is_private default_subnet_ipv6 \<and>
   (\<exists>s. prepare (default_settings\<lparr>CLIENT_SUBNET_IPV6 := Some gua_subnet_ipv6\<rparr>) = Inr s \<and>
      client_subnet_ipv6_is_gua s \<and> \<not> client_subnet_ipv6_is_site_local s) \<and>
   is_unicast gua_subnet_ipv6 \<and> \<not> is_private gua_subnet_ipv6 \<and>
   \<not> is_unicast multicast_subnet_ipv6 \<and> \<not> is_private multicast_subnet_ipv6 \<and>
   startup (default_settings\<lparr>CLIENT_SUBNET_IPV6 := Some multicast_subnet_ipv6\<rparr>) = ([], Inl RuntimeError)"
  using ipv6_classification [of default_settings default_subnet_ipv4 default_subnet_ipv6]
    ipv6_classification [of "default_settings\<lparr>CLIENT_SUBNET_IPV6 := Some gua_subnet_ipv6\<rparr>" default_subnet_ipv4 gua_subnet_ipv6]
    ipv6_classification [of "default_settings\<lparr>CLIENT_SUBNET_IPV6 := Some multicast_subnet_ipv6\<rparr>" default_subnet_ipv4 multicast_subnet_ipv6]
    prepare_default default_subnet_ipv6_private gua_subnet_ipv6_class multicast_subnet_ipv6_class
  by (auto simp add: default_settings_def default_service_def)


subsection \<open>Order of the packet filter rules\<close>

lemmas view_defs = in_chain_def call_table_def call_source_def call_destination_def
  has_policy_def policy_match_def

lemmas section_defs = rh0_exploit_protection_def anti_spoofing_def allow_localhost_def
  allow_ipsec_def existing_connections_def allow_dns_def block_interclient_def allow_icmp_def
  allow_icmpv6_def new_from_clients_def new_from_internet_def drop_everything_else_def
  packet_mangling_def masquerading_ipv4_def masquerading_ipv6_def

lemma last_filter_append:
  "filter P ys \<noteq> [] \<Longrightarrow> last (filter P (xs @ ys)) = last (filter P ys)"
  by simp

lemma configure_firewall_tail:
  "configure_firewall s =
     (rh0_exploit_protection @ anti_spoofing s @ allow_localhost @ allow_ipsec @
      existing_connections @ allow_dns s @ block_interclient s @ allow_icmp @ allow_icmpv6 @
      new_from_clients s @ new_from_internet s) @
     (drop_everything_else @ packet_mangling s @ masquerading_ipv4 s @ masquerading_ipv6 s)"
  by (simp add: configure_firewall_def)

lemma filter_tail:
  "filter (in_chain iptables ''filter'' ''INPUT'')
     (drop_everything_else @ packet_mangling s @ masquerading_ipv4 s @ masquerading_ipv6 s) =
     [Add iptables ''INPUT'' ''DROP'' [] None]"
  "filter (in_chain iptables ''filter'' ''FORWARD'')
     (drop_everything_else @ packet_mangling s @ masquerading_ipv4 s @ masquerading_ipv6 s) =
     [Add iptables ''FORWARD'' ''DROP'' [] None]"
  "filter (in_chain ip6tables ''filter'' ''INPUT'')
     (drop_everything_else @ packet_mangling s @ masquerading_ipv4 s @ masquerading_ipv6 s) =
     [Add ip6tables ''INPUT'' ''DROP'' [] None]"
  "filter (in_chain ip6tables ''filter'' ''FORWARD'')
     (drop_everything_else @ packet_mangling s @ masquerading_ipv4 s @ masquerading_ipv6 s) =
     [Add ip6tables ''FORWARD'' ''DROP'' [] None]"
  by (simp_all add: drop_everything_else_def packet_mangling_def masquerading_ipv4_def
      masquerading_ipv6_def view_defs)

text \<open>
  Claim C1.  The calls that \<^verbatim>\<open>configure\<close> makes are those of its firewall section, or
  none when the addresses could not be computed.  In every run of that section, the
  first three calls add the \<^verbatim>\<open>ip6tables\<close> rules that drop packets with a routing header of type 0
  to INPUT, FORWARD and OUTPUT, so no other rule is emitted before them.  For
  \<^verbatim>\<open>iptables\<close> and \<^verbatim>\<open>ip6tables\<close> alike, the last rule emitted for the chains INPUT and
  FORWARD of the filter table is the unconditional DROP, after every other rule of the
  chain.
\<close>

theorem rh0_rules_first_default_deny_last:
  "(fst (configure s) = configure_firewall s \<or> fst (configure s) = []) \<and>
   take 3 (configure_firewall s) =
     [Add ip6tables ''INPUT'' ''DROP'' [Lit ''-m'', Lit ''rt'', Lit ''--rt-type'', Lit ''0'']
        (Some ''RH0 Exploit Protection''),
      Add ip6tables ''FORWARD'' ''DROP'' [Lit ''-m'', Lit ''rt'', Lit ''--rt-type'', Lit ''0'']
        (Some ''RH0 Exploit Protection''),
      Add ip6tables ''OUTPUT'' ''DROP'' [Lit ''-m'', Lit ''rt'', Lit ''--rt-type'', Lit ''0'']
        (Some ''RH0 Exploit Protection'')] \<and>
   last (filter (in_chain iptables ''filter'' ''INPUT'') (configure_firewall s)) =
     Add iptables ''INPUT'' ''DROP'' [] None \<and>
   last (filter (in_chain iptables ''filter'' ''FORWARD'') (configure_firewall s)) =
     Add iptables ''FORWARD'' ''DROP'' [] None \<and>
   last (filter (in_chain ip6tables ''filter'' ''INPUT'') (configure_firewall s)) =
     Add ip6tables ''INPUT'' ''DROP'' [] None \<and>
   last (filter (in_chain ip6tables ''filter'' ''FORWARD'') (configure_firewall s)) =
     Add ip6tables ''FORWARD'' ''DROP'' [] None"
proof (intro conjI)
  show "fst (configure s) = configure_firewall s \<or> fst (configure s) = []"
    by (simp add: configure_def split: sum.splits)
  show "take 3 (configure_firewall s) =
     [Add ip6tables ''INPUT'' ''DROP'' [Lit ''-m'', Lit ''rt'', Lit ''--rt-type'', Lit ''0'']
        (Some ''RH0 Exploit Protection''),
      Add ip6tables ''FORWARD'' ''DROP'' [Lit ''-m'', Lit ''rt'', Lit ''--rt-type'', Lit ''0'']
        (Some ''RH0 Exploit Protection''),
      Add ip6tables ''OUTPUT'' ''DROP'' [Lit ''-m'', Lit ''rt'', Lit ''--rt-type'', Lit ''0'']
        (Some ''RH0 Exploit Protection'')]"
    by (simp add: configure_firewall_def rh0_exploit_protection_def)
qed (simp_all only: configure_firewall_tail last_filter_append filter_tail
      list.simps not_False_eq_True last.simps if_True simp_thms)


subsection \<open>Traffic between clients\<close>

lemma emitted_before_append:
  "P y \<Longrightarrow> list_ex Q ys \<Longrightarrow> emitted_before P Q (xs @ y # ys)"
  by (induction xs) (auto simp: list_ex_iff)

lemma no_interclient_block:
  "\<not> list_ex (blocks_interclient t n) rh0_exploit_protection"
  "\<not> list_ex (blocks_interclient t n) (anti_spoofing s)"
  "\<not> list_ex (blocks_interclient t n) allow_localhost"
  "\<not> list_ex (blocks_interclient t n) allow_ipsec"
  "\<not> list_ex (blocks_interclient t n) existing_connections"
  "\<not> list_ex (blocks_interclient t n) (allow_dns s)"
  "\<not> list_ex (blocks_interclient t n) allow_icmp"
  "\<not> list_ex (blocks_interclient t n) allow_icmpv6"
  "\<not> list_ex (blocks_interclient t n) (new_from_clients s)"
  "\<not> list_ex (blocks_interclient t n) (new_from_internet s)"
  "\<not> list_ex (blocks_interclient t n) drop_everything_else"
  "\<not> list_ex (blocks_interclient t n) (packet_mangling s)"
  "\<not> list_ex (blocks_interclient t n) (masquerading_ipv4 s)"
  "\<not> list_ex (blocks_interclient t n) (masquerading_ipv6 s)"
  by (simp_all add: section_defs blocks_interclient_def view_defs)

lemma default_deny_emitted:
  "list_ex (default_deny iptables ''FORWARD'') drop_everything_else"
  "list_ex (default_deny ip6tables ''FORWARD'') drop_everything_else"
  by (simp_all add: drop_everything_else_def default_deny_def)

text \<open>
  Claim C5.  When traffic between clients is not allowed, a FORWARD rule of the filter
  table that drops packets with source and destination in the client subnet is emitted
  for IPv4 and for IPv6, each before the unconditional DROP of FORWARD of its family.
  When it is allowed, no rule of that kind is emitted, for whichever tool and subnet.
\<close>

theorem interclient_isolation_rule:
  "(\<not> allow_interclient_communication s \<longrightarrow>
      emitted_before (blocks_interclient iptables (client_subnet_ipv4 s))
        (default_deny iptables ''FORWARD'') (configure_firewall s) \<and>
      emitted_before (blocks_interclient ip6tables (client_subnet_ipv6 s))
        (default_deny ip6tables ''FORWARD'') (configure_firewall s)) \<and>
   (allow_interclient_communication s \<longrightarrow>
      \<not> list_ex (blocks_interclient t n) (configure_firewall s))"
proof (intro conjI impI)
  assume a: "\<not> allow_interclient_communication s"
  let ?r4 = "Add iptables ''FORWARD'' ''DROP''
               [Lit ''-s'', Str (client_subnet_ipv4 s), Lit ''-d'', Str (client_subnet_ipv4 s)] None"
  let ?r6 = "Add ip6tables ''FORWARD'' ''DROP''
               [Lit ''-s'', Str (client_subnet_ipv6 s), Lit ''-d'', Str (client_subnet_ipv6 s)] None"
  let ?pre = "rh0_exploit_protection @ anti_spoofing s @ allow_localhost @ allow_ipsec @
      existing_connections @ allow_dns s"
  let ?post = "allow_icmp @ allow_icmpv6 @ new_from_clients s @ new_from_internet s @
      drop_everything_else @ packet_mangling s @ masquerading_ipv4 s @ masquerading_ipv6 s"
  have e4: "configure_firewall s = ?pre @ ?r4 # (?r6 # ?post)"
    using a by (simp add: configure_firewall_def block_interclient_def)
  have e6: "configure_firewall s = (?pre @ [?r4]) @ ?r6 # ?post"
    using a by (simp add: configure_firewall_def block_interclient_def)
  have p4: "blocks_interclient iptables (client_subnet_ipv4 s) ?r4"
    by (simp add: blocks_interclient_def view_defs)
  have p6: "blocks_interclient ip6tables (client_subnet_ipv6 s) ?r6"
    by (simp add: blocks_interclient_def view_defs)
  have q4: "list_ex (default_deny iptables ''FORWARD'') (?r6 # ?post)"
    using default_deny_emitted(1) by simp
  have q6: "list_ex (default_deny ip6tables ''FORWARD'') ?post"
    using default_deny_emitted(2) by simp
  show "emitted_before (blocks_interclient iptables (client_subnet_ipv4 s))
        (default_deny iptables ''FORWARD'') (configure_firewall s)"
    unfolding e4 using p4 q4 by (rule emitted_before_append)
  show "emitted_before (blocks_interclient ip6tables (client_subnet_ipv6 s))
        (default_deny ip6tables ''FORWARD'') (configure_firewall s)"
    unfolding e6 using p6 q6 by (rule emitted_before_append)
next
  assume "allow_interclient_communication s"
  then have "block_interclient s = []" by (simp add: block_interclient_def)
  then show "\<not> list_ex (blocks_interclient t n) (configure_firewall s)"
    by (simp add: configure_firewall_def no_interclient_block)
qed

text \<open>The default service object (isolation on) and one with isolation off.\<close>

theorem interclient_isolation_rule_witness:
  "(\<not> allow_interclient_communication default_service \<and>
    emitted_before (blocks_interclient iptables default_subnet_ipv4)
      (default_deny iptables ''FORWARD'') (configure_firewall default_service) \<and>
    emitted_before (blocks_interclient ip6tables default_subnet_ipv6)
      (default_deny ip6tables ''FORWARD'') (configure_firewall default_service)) \<and>
   (allow_interclient_communication open_service \<and>
    \<not> list_ex (blocks_interclient iptables default_subnet_ipv4) (configure_firewall open_service))"
  using interclient_isolation_rule [of default_service] interclient_isolation_rule [of open_service iptables default_subnet_ipv4]
  by (simp add: default_service_def open_service_def)


subsection \<open>New connections from the internet to clients\<close>

lemma no_unrestricted_accept:
  "\<not> list_ex (accepts_unrestricted_to t n) rh0_exploit_protection"
  "\<not> list_ex (accepts_unrestricted_to t n) (anti_spoofing s)"
  "\<not> list_ex (accepts_unrestricted_to t n) allow_localhost"
  "\<not> list_ex (accepts_unrestricted_to t n) allow_ipsec"
  "\<not> list_ex (accepts_unrestricted_to t n) existing_connections"
  "\<not> list_ex (accepts_unrestricted_to t n) (allow_dns s)"
  "\<not> list_ex (accepts_unrestricted_to t n) (block_interclient s)"
  "\<not> list_ex (accepts_unrestricted_to t n) allow_icmp"
  "\<not> list_ex (accepts_unrestricted_to t n) allow_icmpv6"
  "\<not> list_ex (accepts_unrestricted_to t n) (new_from_clients s)"
  "\<not> list_ex (accepts_unrestricted_to t n) drop_everything_else"
  "\<not> list_ex (accepts_unrestricted_to t n) (packet_mangling s)"
  "\<not> list_ex (accepts_unrestricted_to t n) (masquerading_ipv4 s)"
  "\<not> list_ex (accepts_unrestricted_to t n) (masquerading_ipv6 s)"
  by (simp_all add: section_defs accepts_unrestricted_to_def view_defs)

text \<open>
  Claim C6.  When clients are protected from the internet, no FORWARD rule of the filter
  table accepts packets to a client subnet without the match on an incoming IPSec
  policy, for either tool.  When they are not protected, the rule that accepts packets
  to the client subnet in connection state NEW is emitted for IPv4 and for IPv6, before
  the unconditional DROP of FORWARD; that rule has no match on an IPSec policy.
\<close>

theorem internet_to_client_admission:
  "(protect_clients_from_internet s \<longrightarrow>
      \<not> list_ex (accepts_unrestricted_to t n) (configure_firewall s)) \<and>
   (\<not> protect_clients_from_internet s \<longrightarrow>
      emitted_before (accepts_new_to iptables (client_subnet_ipv4 s))
        (default_deny iptables ''FORWARD'') (configure_firewall s) \<and>
      emitted_before (accepts_new_to ip6tables (client_subnet_ipv6 s))
        (default_deny ip6tables ''FORWARD'') (configure_firewall s)) \<and>
   (accepts_new_to t n c \<longrightarrow> accepts_unrestricted_to t n c)"
proof (intro conjI impI)
  assume "protect_clients_from_internet s"
  then have "new_from_internet s = []" by (simp add: new_from_internet_def)
  then show "\<not> list_ex (accepts_unrestricted_to t n) (configure_firewall s)"
    by (simp add: configure_firewall_def no_unrestricted_accept)
next
  assume a: "\<not> protect_clients_from_internet s"
  let ?r4 = "Add iptables ''FORWARD'' ''ACCEPT''
               [Lit ''-d'', Str (client_subnet_ipv4 s), Lit ''-m'', Lit ''conntrack'',
                Lit ''--ctstate'', Lit ''NEW''] None"
  let ?r6 = "Add ip6tables ''FORWARD'' ''ACCEPT''
               [Lit ''-d'', Str (client_subnet_ipv6 s), Lit ''-m'', Lit ''conntrack'',
                Lit ''--ctstate'', Lit ''NEW''] None"
  let ?pre = "rh0_exploit_protection @ anti_spoofing s @ allow_localhost @ allow_ipsec @
      existing_connections @ allow_dns s @ block_interclient s @ allow_icmp @ allow_icmpv6 @
      new_from_clients s"
  let ?post = "drop_everything_else @ packet_mangling s @ masquerading_ipv4 s @
      masquerading_ipv6 s"
  have e4: "configure_firewall s = ?pre @ ?r4 # (?r6 # ?post)"
    using a by (simp add: configure_firewall_def new_from_internet_def)
  have e6: "configure_firewall s = (?pre @ [?r4]) @ ?r6 # ?post"
    using a by (simp add: configure_firewall_def new_from_internet_def)
  have p4: "accepts_new_to iptables (client_subnet_ipv4 s) ?r4"
    by (simp add: accepts_new_to_def)
  have p6: "accepts_new_to ip6tables (client_subnet_ipv6 s) ?r6"
    by (simp add: accepts_new_to_def)
  have q4: "list_ex (default_deny iptables ''FORWARD'') (?r6 # ?post)"
    using default_deny_emitted(1) by simp
  have q6: "list_ex (default_deny ip6tables ''FORWARD'') ?post"
    using default_deny_emitted(2) by simp
  show "emitted_before (accepts_new_to iptables (client_subnet_ipv4 s))
        (default_deny iptables ''FORWARD'') (configure_firewall s)"
    unfolding e4 using p4 q4 by (rule emitted_before_append)
  show "emitted_before (accepts_new_to ip6tables (client_subnet_ipv6 s))
        (default_deny ip6tables ''FORWARD'') (configure_firewall s)"
    unfolding e6 using p6 q6 by (rule emitted_before_append)
next
  assume "accepts_new_to t n c"
  then show "accepts_unrestricted_to t n c"
    by (simp add: accepts_new_to_def accepts_unrestricted_to_def view_defs)
qed

text \<open>The default service object (protection on) and one with protection off.\<close>

theorem internet_to_client_admission_witness:
  "(protect_clients_from_internet default_service \<and>
    \<not> list_ex (accepts_unrestricted_to ip6tables default_subnet_ipv6)
        (configure_firewall default_service)) \<and>
   (\<not> protect_clients_from_internet open_service \<and>
    emitted_before (accepts_new_to iptables default_subnet_ipv4)
      (default_deny iptables ''FORWARD'') (configure_firewall open_service) \<and>
    emitted_before (accepts_new_to ip6tables gua_subnet_ipv6)
      (default_deny ip6tables ''FORWARD'') (configure_firewall open_service)) \<and>
   (accepts_new_to ip6tables gua_subnet_ipv6
      (Add ip6tables ''FORWARD'' ''ACCEPT''
         [Lit ''-d'', Str gua_subnet_ipv6, Lit ''-m'', Lit ''conntrack'', Lit ''--ctstate'',
          Lit ''NEW''] None) \<and>
    accepts_unrestricted_to ip6tables gua_subnet_ipv6
      (Add ip6tables ''FORWARD'' ''ACCEPT''
         [Lit ''-d'', Str gua_subnet_ipv6, Lit ''-m'', Lit ''conntrack'', Lit ''--ctstate'',
          Lit ''NEW''] None))"
  using internet_to_client_admission [of default_service ip6tables default_subnet_ipv6]
    internet_to_client_admission [of open_service ip6tables gua_subnet_ipv6
      "Add ip6tables ''FORWARD'' ''ACCEPT''
         [Lit ''-d'', Str gua_subnet_ipv6, Lit ''-m'', Lit ''conntrack'', Lit ''--ctstate'',
          Lit ''NEW''] None"]
  by (simp add: default_service_def open_service_def accepts_new_to_def)


subsection \<open>Masquerading\<close>

lemma nat_postrouting_sections:
  "filter (in_chain t ''nat'' ''POSTROUTING'') rh0_exploit_protection = []"
  "filter (in_chain t ''nat'' ''POSTROUTING'') (anti_spoofing s) = []"
  "filter (in_chain t ''nat'' ''POSTROUTING'') allow_localhost = []"
  "filter (in_chain t ''nat'' ''POSTROUTING'') allow_ipsec = []"
  "filter (in_chain t ''nat'' ''POSTROUTING'') existing_connections = []"
  "filter (in_chain t ''nat'' ''POSTROUTING'') (allow_dns s) = []"
  "filter (in_chain t ''nat'' ''POSTROUTING'') (block_interclient s) = []"
  "filter (in_chain t ''nat'' ''POSTROUTING'') allow_icmp = []"
  "filter (in_chain t ''nat'' ''POSTROUTING'') allow_icmpv6 = []"
  "filter (in_chain t ''nat'' ''POSTROUTING'') (new_from_clients s) = []"
  "filter (in_chain t ''nat'' ''POSTROUTING'') (new_from_internet s) = []"
  "filter (in_chain t ''nat'' ''POSTROUTING'') drop_everything_else = []"
  "filter (in_chain t ''nat'' ''POSTROUTING'') (packet_mangling s) = []"
  by (simp_all add: section_defs view_defs)

lemma nat_postrouting_rules:
  "filter (in_chain t ''nat'' ''POSTROUTING'') (configure_firewall s) =
     filter (in_chain t ''nat'' ''POSTROUTING'') (masquerading_ipv4 s @ masquerading_ipv6 s)"
  by (simp add: configure_firewall_def nat_postrouting_sections)

lemma list_ex_masquerades:
  "list_ex (masquerades t n) calls =
     list_ex (\<lambda>c. call_target c = Some ''MASQUERADE'' \<and> call_source c = Some (Str n))
       (filter (in_chain t ''nat'' ''POSTROUTING'') calls)"
  by (auto simp add: list_ex_iff masquerades_def)

lemma list_ex_masquerades_ipsec:
  "list_ex (masquerades_ipsec t n) calls =
     list_ex (\<lambda>c. call_target c = Some ''MASQUERADE'' \<and> call_source c = Some (Str n) \<and>
                has_policy ''out'' ''ipsec'' c)
       (filter (in_chain t ''nat'' ''POSTROUTING'') calls)"
  by (auto simp add: list_ex_iff masquerades_ipsec_def masquerades_def)

text \<open>
  Claim C7, as stated, asks for a rule that masquerades the traffic of the IPv4 client
  subnet that leaves under an IPSec policy.  With the default settings, no MASQUERADE
  rule with source 10.0.0.0/24 carries the match on an outgoing IPSec policy.
\<close>

theorem masquerade_rule_without_ipsec_match:
  "\<not> list_ex (masquerades_ipsec iptables default_subnet_ipv4) (configure_firewall default_service)"
  unfolding list_ex_masquerades_ipsec nat_postrouting_rules
  by (simp add: masquerading_ipv4_def masquerading_ipv6_def default_service_def view_defs)

text \<open>
  Claim C7, amended.  In every run, the rules for POSTROUTING of the nat table are, for
  IPv4, an ACCEPT rule for packets from the client subnet that leave under an IPSec
  policy, followed by a MASQUERADE rule for the packets from the client subnet; so the
  tunnelled traffic is exempt and the rest is masqueraded.  For IPv6 the same pair is
  emitted when the client subnet is site-local, and no rule at all otherwise.  No
  MASQUERADE rule carries a match on an outgoing IPSec policy.
\<close>

theorem nat_postrouting_masquerading:
  "filter (in_chain iptables ''nat'' ''POSTROUTING'') (configure_firewall s) =
     [Add iptables ''POSTROUTING'' ''ACCEPT''
        [Lit ''-t'', Lit ''nat'', Lit ''-s'', Str (client_subnet_ipv4 s),
         Lit ''-m'', Lit ''policy'', Lit ''--dir'', Lit ''out'', Lit ''--pol'', Lit ''ipsec''] None,
      Add iptables ''POSTROUTING'' ''MASQUERADE''
        [Lit ''-t'', Lit ''nat'', Lit ''-s'', Str (client_subnet_ipv4 s)] None] \<and>
   filter (in_chain ip6tables ''nat'' ''POSTROUTING'') (configure_firewall s) =
     (if client_subnet_ipv6_is_site_local s then
        [Add ip6tables ''POSTROUTING'' ''ACCEPT''
           [Lit ''-t'', Lit ''nat'', Lit ''-s'', Str (client_subnet_ipv6 s),
            Lit ''-m'', Lit ''policy'', Lit ''--dir'', Lit ''out'', Lit ''--pol'', Lit ''ipsec''] None,
         Add ip6tables ''POSTROUTING'' ''MASQUERADE''
           [Lit ''-t'', Lit ''nat'', Lit ''-s'', Str (client_subnet_ipv6 s)] None]
      else []) \<and>
   list_ex (masquerades iptables (client_subnet_ipv4 s)) (configure_firewall s) \<and>
   (list_ex (masquerades ip6tables (client_subnet_ipv6 s)) (configure_firewall s) \<longleftrightarrow>
      client_subnet_ipv6_is_site_local s) \<and>
   \<not> list_ex (masquerades_ipsec t n) (configure_firewall s)"
  unfolding list_ex_masquerades_ipsec list_ex_masquerades nat_postrouting_rules
  by (cases t) (simp_all add: masquerading_ipv4_def masquerading_ipv6_def view_defs)

text \<open>The site-local default and the global unicast subnet 2001:db8:1:2::/64.\<close>

theorem nat_postrouting_masquerading_witness:
  "(client_subnet_ipv6_is_site_local default_service \<and>
    list_ex (masquerades ip6tables default_subnet_ipv6) (configure_firewall default_service)) \<and>
   (\<not> client_subnet_ipv6_is_site_local open_service \<and>
    \<not> list_ex (masquerades ip6tables gua_subnet_ipv6) (configure_firewall open_service) \<and>
    filter (in_chain ip6tables ''nat'' ''POSTROUTING'') (configure_firewall open_service) = [])"
  using nat_postrouting_masquerading [of default_service] nat_postrouting_masquerading [of open_service]
  by (simp add: default_service_def open_service_def)


subsection \<open>The subnet named in the IPv6 rules\<close>

lemma networks_matched_append:
  "networks_matched t (xs @ ys) = networks_matched t xs @ networks_matched t ys"
  by (simp add: networks_matched_def)

lemma networks_matched_ip6tables:
  "networks_matched ip6tables rh0_exploit_protection = []"
  "networks_matched ip6tables (anti_spoofing s) = [client_subnet_ipv6 s, client_subnet_ipv6 s]"
  "networks_matched ip6tables allow_localhost = []"
  "networks_matched ip6tables allow_ipsec = []"
  "networks_matched ip6tables existing_connections = []"
  "networks_matched ip6tables (allow_dns s) = [client_subnet_ipv6 s, client_subnet_ipv6 s]"
  "networks_matched ip6tables (block_interclient s) =
     (if allow_interclient_communication s then [] else [client_subnet_ipv6 s, client_subnet_ipv6 s])"
  "networks_matched ip6tables allow_icmp = []"
  "networks_matched ip6tables allow_icmpv6 = []"
  "networks_matched ip6tables (new_from_clients s) = [client_subnet_ipv6 s]"
  "networks_matched ip6tables (new_from_internet s) =
     (if protect_clients_from_internet s then [] else [client_subnet_ipv6 s])"
  "networks_matched ip6tables drop_everything_else = []"
  "networks_matched ip6tables (packet_mangling s) = [client_subnet_ipv6 s]"
  "networks_matched ip6tables (masquerading_ipv4 s) = []"
  "networks_matched ip6tables (masquerading_ipv6 s) =
     (if client_subnet_ipv6_is_site_local s then [client_subnet_ipv6 s, client_subnet_ipv6 s] else [])"
  by (simp_all add: section_defs networks_matched_def call_networks_def)

lemma effective_differs:
  assumes "prefixlen n < 96"
  shows "IPNetwork6 (first n) 96 \<noteq> n"
proof
  assume "IPNetwork6 (first n) 96 = n"
  then have "prefixlen (IPNetwork6 (first n) 96) = prefixlen n" by simp
  then show False using assms by (simp add: IPNetwork6_def)
qed

text \<open>
  Claim C10.  For an IPv6 client subnet with a prefix shorter than 96 bits, the effective
  subnet (the /96 from which the addresses are taken) differs from the configured one,
  and every network named in an \<^verbatim>\<open>ip6tables\<close> call is the configured subnet: in the
  rules against spoofing, for DNS, for new connections from clients and for MSS
  clamping always, and in the rules between clients, from the internet and for
  masquerading whenever these are emitted.  The effective subnet is named in none.
\<close>

theorem ipv6_rules_match_configured_subnet:
  "ip_version (client_subnet_ipv6 s) = 6 \<and> ipnetwork_ok (client_subnet_ipv6 s) \<and>
   prefixlen (client_subnet_ipv6 s) < 96 \<longrightarrow>
     effective_client_subnet_ipv6 (client_subnet_ipv6 s) =
       Inr (IPNetwork6 (first (client_subnet_ipv6 s)) 96) \<and>
     IPNetwork6 (first (client_subnet_ipv6 s)) 96 \<noteq> client_subnet_ipv6 s \<and>
     set (networks_matched ip6tables (configure_firewall s)) = {client_subnet_ipv6 s} \<and>
     IPNetwork6 (first (client_subnet_ipv6 s)) 96 \<notin>
       set (networks_matched ip6tables (configure_firewall s)) \<and>
     set (networks_matched ip6tables (anti_spoofing s)) = {client_subnet_ipv6 s} \<and>
     set (networks_matched ip6tables (allow_dns s)) = {client_subnet_ipv6 s} \<and>
     set (networks_matched ip6tables (block_interclient s)) \<subseteq> {client_subnet_ipv6 s} \<and>
     set (networks_matched ip6tables (new_from_clients s)) = {client_subnet_ipv6 s} \<and>
     set (networks_matched ip6tables (new_from_internet s)) \<subseteq> {client_subnet_ipv6 s} \<and>
     set (networks_matched ip6tables (packet_mangling s)) = {client_subnet_ipv6 s} \<and>
     set (networks_matched ip6tables (masquerading_ipv6 s)) \<subseteq> {client_subnet_ipv6 s}"
proof (intro impI)
  assume a: "ip_version (client_subnet_ipv6 s) = 6 \<and> ipnetwork_ok (client_subnet_ipv6 s) \<and>
   prefixlen (client_subnet_ipv6 s) < 96"
  then have eff: "effective_client_subnet_ipv6 (client_subnet_ipv6 s) =
       Inr (IPNetwork6 (first (client_subnet_ipv6 s)) 96)"
    using subnet_first_96 [of "client_subnet_ipv6 s"]
    by (simp add: effective_client_subnet_ipv6_def)
  have ne: "IPNetwork6 (first (client_subnet_ipv6 s)) 96 \<noteq> client_subnet_ipv6 s"
    using a by (intro effective_differs) simp
  have all: "set (networks_matched ip6tables (configure_firewall s)) = {client_subnet_ipv6 s}"
    by (auto simp add: configure_firewall_def networks_matched_append networks_matched_ip6tables)
  show "effective_client_subnet_ipv6 (client_subnet_ipv6 s) =
       Inr (IPNetwork6 (first (client_subnet_ipv6 s)) 96) \<and>
     IPNetwork6 (first (client_subnet_ipv6 s)) 96 \<noteq> client_subnet_ipv6 s \<and>
     set (networks_matched ip6tables (configure_firewall s)) = {client_subnet_ipv6 s} \<and>
     IPNetwork6 (first (client_subnet_ipv6 s)) 96 \<notin>
       set (networks_matched ip6tables (configure_firewall s)) \<and>
     set (networks_matched ip6tables (anti_spoofing s)) = {client_subnet_ipv6 s} \<and>
     set (networks_matched ip6tables (allow_dns s)) = {client_subnet_ipv6 s} \<and>
     set (networks_matched ip6tables (block_interclient s)) \<subseteq> {client_subnet_ipv6 s} \<and>
     set (networks_matched ip6tables (new_from_clients s)) = {client_subnet_ipv6 s} \<and>
     set (networks_matched ip6tables (new_from_internet s)) \<subseteq> {client_subnet_ipv6 s} \<and>
     set (networks_matched ip6tables (packet_mangling s)) = {client_subnet_ipv6 s} \<and>
     set (networks_matched ip6tables (masquerading_ipv6 s)) \<subseteq> {client_subnet_ipv6 s}"
    using eff ne all by (auto simp add: networks_matched_ip6tables)
qed

text \<open>The default fd00:dead:beef:affe::/64, whose effective subnet is a /96.\<close>

theorem ipv6_rules_match_configured_subnet_witness:
  "ip_version (client_subnet_ipv6 default_service) = 6 \<and>
   ipnetwork_ok (client_subnet_ipv6 default_service) \<and>
   prefixlen (client_subnet_ipv6 default_service) < 96 \<and>
   effective_client_subnet_ipv6 default_subnet_ipv6 =
     Inr (IPNetwork6 (ipv6 [0xfd00, 0xdead, 0xbeef, 0xaffe, 0, 0, 0, 0]) 96) \<and>
   set (networks_matched ip6tables (configure_firewall default_service)) =
     {IPNetwork6 (ipv6 [0xfd00, 0xdead, 0xbeef, 0xaffe, 0, 0, 0, 0]) 64}"
  using ipv6_rules_match_configured_subnet [of default_service]
  by (simp add: default_service_def default_subnet_ipv6_def ipnetwork_ok_def first_def
        hostmask_int_def max_int_def width_def IPNetwork6_def ipv6_def)


subsection \<open>External PKI\<close>

text \<open>
  Claim C9.  With \<^verbatim>\<open>USE_INTERNAL_PKI\<close> off and a file system that holds none of the
  files under \<^verbatim>\<open>/data/external_ca\<close>, \<^verbatim>\<open>init_pki_external\<close> returns normally and leaves the
  service object as it was; its result is the same for every file system.
\<close>

theorem external_pki_accepts_missing_files:
  "init_pki_external Map.empty (default_service\<lparr>use_internal_pki := False\<rparr>) =
     Inr (default_service\<lparr>use_internal_pki := False\<rparr>) \<and>
   Map.empty EXTERNAL_PKI_CA_CERT_FILE = (None :: string option) \<and>
   init_pki_external files s = Inr s"
  by (simp add: init_pki_external_def)


end
